theory Spec2Isabelle
  imports Main "HOL-Library.Extended_Nat"
begin

section \<open>JavaScript strings and arrays\<close>

text \<open>
  A JavaScript string is modelled as a \<^typ>\<open>string\<close>, one \<^typ>\<open>char\<close> per code unit
  (code units below 256). Only the \<open>String\<close> and \<open>Array\<close> methods the pitch-deck page
  calls are modelled, each after its ECMAScript definition.
\<close>

definition startsWith :: "string \<Rightarrow> string \<Rightarrow> bool" where
  "startsWith s p = (take (length p) s = p)"

definition endsWith :: "string \<Rightarrow> string \<Rightarrow> bool" where
  "endsWith s p = (length p \<le> length s \<and> drop (length s - length p) s = p)"

fun includes_str :: "string \<Rightarrow> string \<Rightarrow> bool" where
  \<comment> \<open>\<open>s.includes(p)\<close>: \<open>p\<close> occurs in \<open>s\<close> at some position.\<close>
  "includes_str [] p = (p = [])"
| "includes_str (c # cs) p = (startsWith (c # cs) p \<or> includes_str cs p)"

definition slice :: "string \<Rightarrow> int \<Rightarrow> int \<Rightarrow> string" where
  \<comment> \<open>\<open>s.slice(start, fin)\<close>: a negative bound counts from the end, both are clamped.\<close>
  "slice s start fin =
     (let len = int (length s);
          k = (if start < 0 then max (len + start) 0 else min start len);
          final = (if fin < 0 then max (len + fin) 0 else min fin len)
      in take (nat (final - k)) (drop (nat k) s))"

definition isWhiteSpace :: "char \<Rightarrow> bool" where
  \<comment> \<open>White space and line terminators among the code units below 256.\<close>
  "isWhiteSpace c =
     (c \<in> set [CHR 0x09, CHR 0x0A, CHR 0x0B, CHR 0x0C, CHR 0x0D, CHR 0x20, CHR 0xA0])"

definition trim :: "string \<Rightarrow> string" where
  "trim s = rev (dropWhile isWhiteSpace (rev (dropWhile isWhiteSpace s)))"

fun join_from :: "string \<Rightarrow> string \<Rightarrow> string list \<Rightarrow> string" where
  \<comment> \<open>The loop of \<open>Array.prototype.join\<close>: \<open>R\<close> is the string built so far.\<close>
  "join_from R sep [] = R"
| "join_from R sep (e # es) = join_from (R @ sep @ e) sep es"

definition join :: "string list \<Rightarrow> string \<Rightarrow> string" where
  "join xs sep = (case xs of [] \<Rightarrow> [] | e # es \<Rightarrow> join_from e sep es)"

definition orElse :: "string option \<Rightarrow> string \<Rightarrow> string" where
  \<comment> \<open>\<open>v || d\<close> for an optional string \<open>v\<close>: \<open>undefined\<close> and \<open>''\<close> are falsy.\<close>
  "orElse v d = (case v of None \<Rightarrow> d | Some s \<Rightarrow> if s = [] then d else s)"

definition interpolate :: "string option \<Rightarrow> string" where
  \<comment> \<open>\<open>${v}\<close> in a template literal: \<open>undefined\<close> prints as the word \<open>undefined\<close>.\<close>
  "interpolate v = (case v of None \<Rightarrow> ''undefined'' | Some s \<Rightarrow> s)"

definition truthy :: "string option \<Rightarrow> bool" where
  "truthy v = (case v of None \<Rightarrow> False | Some s \<Rightarrow> s \<noteq> [])"

definition newline :: string where
  "newline = [CHR 0x0A]"



fun digits :: "nat \<Rightarrow> string" where
  \<comment> \<open>The decimal digits of a number, as a template literal prints an index.\<close>
  "digits n = (if n < 10 then [char_of (48 + n)] else digits (n div 10) @ [char_of (48 + n mod 10)])"

section \<open>Data model (types/slide.ts)\<close>

text \<open>
  Numbers are JavaScript numbers; the source only ever stores integers in the geometry
  fields, so they are \<^typ>\<open>int\<close>. The payload of a visual (\<open>data: any\<close>,
  \<open>config?: any\<close>) is opaque to the page and is the type parameter \<open>'v\<close>. A field the
  interface marks optional (\<open>?\<close>) is an \<open>option\<close>, \<open>None\<close> standing for
  \<open>undefined\<close>. Selector names that clash with HOL constants carry a prefix.
\<close>

record Position =
  pos_x :: int
  pos_y :: int

record Size =
  width :: int
  height :: int

record BaseBlock =
  block_id :: string
  position :: Position
  block_size :: Size

record TextBlock = BaseBlock +
  block_content :: string
  isEditable :: bool

datatype VisualType = pie | bar | line | scatter | table

record 'v VisualBlock =
  visual_type :: VisualType
  visual_data :: 'v
  config :: "'v option"

record 'v VisualBlockContainer = BaseBlock +
  visual :: "'v VisualBlock"

datatype 'v SlideBlock = Text TextBlock | Visual "'v VisualBlockContainer"

text \<open>
  \<open>Slide\<close> declares \<open>content\<close>, \<open>design\<close> and \<open>blocks\<close> required, but the page
  holds slides fetched from the backend, which carry only a title and a content, and it
  guards its reads with \<open>slide.content || ''\<close>, \<open>slide.design || ''\<close> and
  \<open>blocks && Array.isArray(blocks)\<close>. The three fields are \<open>option\<close>s here, so that
  every such guard, and every read without one, is a branch of the model.
\<close>

record 'v Slide =
  title :: string
  content :: "string option"
  design :: "string option"
  blocks :: "'v SlideBlock list option"
  visuals :: "'v VisualBlock list option"
  imageUrl :: "string option"
  videoUrl :: "string option"
  theme :: "string option"

fun blockId :: "'v SlideBlock \<Rightarrow> string" where
  "blockId (Text b) = block_id b"
| "blockId (Visual b) = block_id b"

fun textContents :: "'v SlideBlock list \<Rightarrow> string list" where
  \<comment> \<open>\<open>blocks.filter(b => b.type === 'text').map(b => b.content)\<close>\<close>
  "textContents [] = []"
| "textContents (Text b # bs) = block_content b # textContents bs"
| "textContents (Visual b # bs) = textContents bs"

fun visualPayloads :: "'v SlideBlock list \<Rightarrow> 'v VisualBlock list" where
  \<comment> \<open>\<open>blocks.filter(b => b.type === 'visual').map(b => b.visual)\<close>\<close>
  "visualPayloads [] = []"
| "visualPayloads (Text b # bs) = visualPayloads bs"
| "visualPayloads (Visual b # bs) = visual b # visualPayloads bs"

section \<open>Page state and the external service (page.tsx)\<close>

record Metrics =
  score :: int
  narrative_flow :: string
  visual_design :: string
  data_credibility :: string

text \<open>
  A suggestion is only ever built by \<open>fetchAISuggestion\<close>, whose \<open>type\<close> parameter is
  \<open>'Content' | 'Design'\<close>.
\<close>

datatype SuggestionType = Content | Design

record Suggestion =
  suggestion_type :: SuggestionType
  suggestion_text :: string

record 'v PageState =
  deckTitle :: string
  deckDescription :: string
  loading :: bool
  error :: "string option"
  showAIModal :: bool
  slides :: "'v Slide list"
  selectedSlide :: "nat option"
  showEditModal :: bool
  metrics :: Metrics
  aiFeedback :: string
  showFeedbackModal :: bool
  slidesModified :: bool
  analysisLoading :: bool
  lastFeedbackSlidesHash :: string
  aiSuggestions :: "Suggestion list"

text \<open>
  Every external call of the page is \<open>await fetch(...)\<close>. What the service answers is an
  argument of the handler: \<open>Rejected m\<close> when the awaited promise rejects with an error of
  message \<open>m\<close>, \<open>NotOk detail\<close> when \<open>response.ok\<close> is false and the error body is
  JSON (\<open>detail\<close> is its \<open>detail\<close> field, if any), \<open>NotOkNoJson m\<close> when
  \<open>response.ok\<close> is false and parsing the error body fails with message \<open>m\<close>,
  \<open>Success d\<close> when the body \<open>d\<close> arrives.
  A handler returns the events it caused, in order: \<open>Sent q\<close> when a request leaves,
  \<open>Received\<close> when the awaited answer to the last request is back.
\<close>

datatype 'd response = Rejected string | NotOk "string option" | NotOkNoJson string | Success 'd

datatype 'v request =
    AnalyzePitchDeck "(string \<times> string) list" bool
  | GenerateSuggestion string "string option" "string option" SuggestionType
  | GenerateSlides string string
  | GenerateSlideContent string string "string option"
  | GenerateDesignSuggestions string string "string option" "string option"
  | SaveSlides "'v Slide list"

datatype 'v event = Sent "'v request" | Received

text \<open>
  \<open>Error m\<close> is an exception object with message \<open>m\<close>; \<open>TypeError\<close> is what reading a
  property of \<open>undefined\<close> raises.
\<close>

datatype js_error = Error string | TypeError

record AnalysisData =
  data_score :: "int option"
  data_narrative_flow :: "string option"
  data_visual_design :: "string option"
  data_data_credibility :: "string option"
  data_feedback :: "string option"

fun peak :: "nat \<Rightarrow> 'v event list \<Rightarrow> nat" where
  \<comment> \<open>The greatest number of requests awaiting their answer at one time, \<open>n\<close> pending at the start.\<close>
  "peak n [] = n"
| "peak n (Sent q # es) = peak (Suc n) es"
| "peak n (Received # es) = max n (peak (n - 1) es)"

section \<open>Change tracking (page.tsx)\<close>

definition generateSlidesHash :: "'v Slide list \<Rightarrow> string" where
  "generateSlidesHash slidesToHash =
     join (map (\<lambda>slide. title slide @ '':'' @ interpolate (content slide) @ '':''
                         @ interpolate (design slide)) slidesToHash) ''|''"

definition hasSlidesChanged :: "'v PageState \<Rightarrow> bool" where
  "hasSlidesChanged st =
     (let currentHash = generateSlidesHash (slides st)
      in currentHash \<noteq> lastFeedbackSlidesHash st)"

section \<open>Analysis and feedback (page.tsx)\<close>

definition analysisRequest :: "'v Slide list \<Rightarrow> bool \<Rightarrow> 'v request" where
  \<comment> \<open>The body sent to \<open>/analyze-pitch-deck\<close>; the constant \<open>metricScales\<close> is left out.\<close>
  "analysisRequest slidesToAnalyze getFeedback =
     AnalyzePitchDeck (map (\<lambda>s. (title s, orElse (content s) [])) slidesToAnalyze) getFeedback"

definition notAnalyzed :: Metrics where
  "notAnalyzed =
     \<lparr>score = 0, narrative_flow = ''Not analyzed'', visual_design = ''Not analyzed'',
      data_credibility = ''Not analyzed''\<rparr>"

definition updateAIAnalysis ::
  "'v Slide list \<Rightarrow> bool \<Rightarrow> AnalysisData response \<Rightarrow> 'v PageState
     \<Rightarrow> 'v PageState \<times> 'v event list \<times> (string + AnalysisData)" where
  \<comment> \<open>\<open>Inl m\<close>: the call rethrows an error of message \<open>m\<close>. The \<open>finally\<close> block runs last
      on both paths.\<close>
  "updateAIAnalysis slidesToAnalyze getFeedback resp st0 =
     (let st = st0\<lparr>analysisLoading := True\<rparr>;
          evs = [Sent (analysisRequest slidesToAnalyze getFeedback), Received];
          tried = (case resp of
                     Rejected m \<Rightarrow> Inl m
                   | NotOk detail \<Rightarrow> Inl (orElse detail ''Failed to analyze pitch deck'')
                   | NotOkNoJson m \<Rightarrow> Inl ''Failed to analyze pitch deck''
                   | Success d \<Rightarrow> Inr d)
      in case tried of
           Inr d \<Rightarrow>
             let st1 = st\<lparr>metrics :=
                         \<lparr>score = (case data_score d of None \<Rightarrow> 0 | Some n \<Rightarrow> n),
                          narrative_flow = orElse (data_narrative_flow d) ''Not analyzed'',
                          visual_design = orElse (data_visual_design d) ''Not analyzed'',
                          data_credibility = orElse (data_data_credibility d) ''Not analyzed''\<rparr>\<rparr>;
                 st2 = (case data_feedback d of
                          None \<Rightarrow> st1
                        | Some feedback \<Rightarrow>
                            if getFeedback \<and> feedback \<noteq> []
                            then st1\<lparr>aiFeedback := feedback,
                                     lastFeedbackSlidesHash := generateSlidesHash slidesToAnalyze\<rparr>
                            else st1)
             in (st2\<lparr>analysisLoading := False\<rparr>, evs, Inr d)
         | Inl m \<Rightarrow>
             let st1 = st\<lparr>metrics := notAnalyzed\<rparr>;
                 st2 = (if getFeedback
                        then st1\<lparr>aiFeedback := ''Failed to generate feedback. Please try again.''\<rparr>
                        else st1)
             in (st2\<lparr>analysisLoading := False\<rparr>, evs, Inl m))"

definition handleShowAIFeedback ::
  "AnalysisData response \<Rightarrow> 'v PageState \<Rightarrow> 'v PageState \<times> 'v event list" where
  "handleShowAIFeedback resp st =
     (if \<not> hasSlidesChanged st \<and> aiFeedback st \<noteq> []
      then (st\<lparr>showFeedbackModal := True\<rparr>, [])
      else case updateAIAnalysis (slides st) True resp st of
             (st', evs, Inr d) \<Rightarrow> (st'\<lparr>slidesModified := False, showFeedbackModal := True\<rparr>, evs)
           | (st', evs, Inl m) \<Rightarrow> (st'\<lparr>error := Some m\<rparr>, evs))"

section \<open>Suggestions (page.tsx)\<close>

definition fetchAISuggestion ::
  "SuggestionType \<Rightarrow> 'v Slide \<Rightarrow> string response \<Rightarrow> 'v event list \<times> (string + Suggestion)" where
  "fetchAISuggestion type slide resp =
     ([Sent (GenerateSuggestion (title slide) (content slide) (design slide) type), Received],
      case resp of
        Rejected m \<Rightarrow> Inl m
      | NotOk detail \<Rightarrow> Inl (orElse detail ''Failed to fetch suggestion'')
      | NotOkNoJson m \<Rightarrow> Inl ''Failed to fetch suggestion''
      | Success suggestion \<Rightarrow> Inr \<lparr>suggestion_type = type, suggestion_text = suggestion\<rparr>)"

definition fetchAISuggestions ::
  "int \<Rightarrow> string response \<Rightarrow> string response \<Rightarrow> 'v PageState
     \<Rightarrow> 'v PageState \<times> 'v event list \<times> (string + unit)" where
  \<comment> \<open>\<open>contentResp\<close> and \<open>designResp\<close> are the answers the service gives to the two
      requests; the second request is only reached after the first \<open>await\<close> returned.\<close>
  "fetchAISuggestions slideIdx contentResp designResp st =
     (if 0 \<le> slideIdx \<and> slideIdx < int (length (slides st)) then
        let slide = slides st ! nat slideIdx;
            (evs1, r1) = fetchAISuggestion Content slide contentResp
        in case r1 of
             Inl m \<Rightarrow> (st, evs1, Inl m)
           | Inr contentSuggestion \<Rightarrow>
               let (evs2, r2) = fetchAISuggestion Design slide designResp
               in case r2 of
                    Inl m \<Rightarrow> (st, evs1 @ evs2, Inl m)
                  | Inr designSuggestion \<Rightarrow>
                      (st\<lparr>aiSuggestions := [contentSuggestion, designSuggestion]\<rparr>,
                       evs1 @ evs2, Inr ())
      else (st, [], Inr ()))"





section \<open>Editing and saving a slide (page.tsx)\<close>

definition handleEditSlide :: "nat \<Rightarrow> 'v PageState \<Rightarrow> 'v PageState" where
  "handleEditSlide index st = st\<lparr>selectedSlide := Some index, showEditModal := True\<rparr>"

definition handleEditBlock ::
  "nat \<Rightarrow> nat \<Rightarrow> string \<Rightarrow> 'v PageState \<Rightarrow> js_error + 'v PageState" where
  \<comment> \<open>Spreading an absent \<open>blocks\<close> and reading \<open>type\<close> of an absent block raise.\<close>
  "handleEditBlock slideIndex blockIndex newContent st =
     (if slideIndex < length (slides st) then
        case blocks (slides st ! slideIndex) of
          None \<Rightarrow> Inl TypeError
        | Some bs \<Rightarrow>
            if blockIndex < length bs then
              let bs' = (case bs ! blockIndex of
                           Text b \<Rightarrow> bs[blockIndex := Text (b\<lparr>block_content := newContent\<rparr>)]
                         | Visual b \<Rightarrow> bs);
                  slide = (slides st ! slideIndex)
                            \<lparr>blocks := Some bs',
                             content := Some (join (textContents bs') (newline @ newline))\<rparr>
              in Inr (st\<lparr>slides := (slides st)[slideIndex := slide]\<rparr>)
            else Inl TypeError
      else Inl TypeError)"

definition stripParagraph :: "string \<Rightarrow> string" where
  \<comment> \<open>The unwrapping of \<open>html\<close> inside the \<open>forEach\<close> of Save Changes.\<close>
  "stripParagraph html =
     (if startsWith html ''<p>'' \<and> endsWith html ''</p>'' then
        let inner = slice html 3 (- 4)
        in if \<not> includes_str inner ''<p>'' \<and> \<not> includes_str inner ''</p>'' then inner else html
      else html)"

fun materialize ::
  "'v SlideBlock list \<Rightarrow> string \<times> 'v VisualBlock list \<Rightarrow> string \<times> 'v VisualBlock list" where
  \<comment> \<open>The \<open>forEach\<close> of Save Changes over \<open>blocks\<close>, on the pair \<open>(content, visuals)\<close>.\<close>
  "materialize [] acc = acc"
| "materialize (Text b # bs) (c, vs) =
     materialize bs (c @ stripParagraph (block_content b) @ newline, vs)"
| "materialize (Visual b # bs) (c, vs) = materialize bs (c, vs @ [visual b])"

definition saveChanges ::
  "unit response \<Rightarrow> 'v PageState \<Rightarrow> 'v PageState \<times> 'v event list \<times> (js_error + unit)" where
  \<comment> \<open>The \<open>onClick\<close> of the Save Changes button. \<open>blocks && Array.isArray(blocks)\<close> holds
      for every array, the empty one included. The answer of \<open>/save-slides\<close> is awaited
      but not inspected.\<close>
  "saveChanges resp st =
     (case selectedSlide st of
        None \<Rightarrow> (st, [], Inr ())
      | Some sel \<Rightarrow>
          if sel < length (slides st) then
            let slide = slides st ! sel;
                (c, vs) = (case blocks slide of
                             None \<Rightarrow> (orElse (content slide) [],
                                      (case visuals slide of None \<Rightarrow> [] | Some v \<Rightarrow> v))
                           | Some bs \<Rightarrow> (let (c', vs') = materialize bs ([], []) in (trim c', vs')));
                updatedSlides = (slides st)[sel := slide\<lparr>content := Some c, visuals := Some vs\<rparr>]
            in (st\<lparr>slides := updatedSlides, slidesModified := True, showEditModal := False\<rparr>,
                [Sent (SaveSlides updatedSlides), Received],
                case resp of Rejected m \<Rightarrow> Inl (Error m) | NotOk detail \<Rightarrow> Inr ()
                           | NotOkNoJson m \<Rightarrow> Inr () | Success u \<Rightarrow> Inr ())
          else (st, [], Inl TypeError))"

section \<open>Media upload and bulk generation (page.tsx)\<close>




text \<open>
  The Generate Content button of the edit dialog asks for a content, then for a design, and
  stores both in the selected slide in one update. The dialog, and so the button, exists
  only while \<open>selectedSlide\<close> is not null. With \<open>selectedSlide\<close> past the end the update
  stores an object that has only a content and a design; \<open>StoredPastEnd\<close> gives the rest
  of the state, the index and the two fields.
\<close>

datatype 'v Generated =
    Stored "'v PageState"
  | StoredPastEnd "'v PageState" nat "string option" "string option"

definition generateContentOnClick ::
  "string option response \<Rightarrow> string option response \<Rightarrow> 'v PageState
     \<Rightarrow> 'v Generated \<times> 'v event list" where
  \<comment> \<open>\<open>contentResp\<close> carries \<open>contentData.content\<close>, \<open>designResp\<close> carries
      \<open>designData.suggestions\<close>. A design answer that is not ok leaves \<open>design = ''\<close>;
      every thrown error ends in the \<open>catch\<close> block, before any slide is touched.\<close>
  "generateContentOnClick contentResp designResp st0 =
     (case selectedSlide st0 of
        None \<Rightarrow> (Stored st0, [])
      | Some sel \<Rightarrow>
          let st = st0\<lparr>loading := True, error := None\<rparr>;
              slide_title = (if sel < length (slides st0)
                             then Some (title (slides st0 ! sel)) else None);
              q1 = Sent (GenerateSlideContent (deckTitle st0) (deckDescription st0) slide_title);
              failed = (\<lambda>m evs. (Stored (st\<lparr>error := Some m, loading := False\<rparr>), evs))
          in case contentResp of
               Rejected m \<Rightarrow> failed m [q1, Received]
             | NotOk detail \<Rightarrow> failed (orElse detail ''Failed to generate content'') [q1, Received]
             | NotOkNoJson m \<Rightarrow> failed m [q1, Received]
             | Success newContent \<Rightarrow>
                 let q2 = Sent (GenerateDesignSuggestions (deckTitle st0) (deckDescription st0)
                                  slide_title newContent);
                     evs = [q1, Received, q2, Received];
                     stored = (\<lambda>newDesign.
                       let st' = st\<lparr>slidesModified := True, loading := False\<rparr>
                       in if sel < length (slides st)
                          then (Stored (st'\<lparr>slides := (slides st)
                                   [sel := (slides st ! sel)\<lparr>content := newContent,
                                                              design := newDesign\<rparr>]\<rparr>), evs)
                          else (StoredPastEnd st' sel newContent newDesign, evs))
                 in case designResp of
                      Rejected m \<Rightarrow> failed m evs
                    | NotOk detail \<Rightarrow> stored (Some [])
                    | NotOkNoJson m \<Rightarrow> stored (Some [])
                    | Success suggestions \<Rightarrow> stored suggestions)"

definition STANDARD_SLIDES :: "string list" where
  "STANDARD_SLIDES =
     [''The Problem'', ''Our Solution'', ''Product Demo'', ''Market Opportunity'', ''Traction'',
      ''Customer Love'', ''Competitive Landscape'', ''Business Model'', ''Financial Projections'',
      ''Go-to-Market Strategy'', ''Team'', ''Funding Ask'', ''Thank You'']"

definition generatedSlide :: "nat \<Rightarrow> string \<Rightarrow> 'v Slide" where
  \<comment> \<open>The slide \<open>handleAIGenerate\<close> builds from the \<open>index\<close>-th generated content.\<close>
  "generatedSlide index slideContent =
     \<lparr>title = (if index < length STANDARD_SLIDES then STANDARD_SLIDES ! index
               else ''Slide '' @ digits (index + 1)),
      content = Some slideContent, design = Some [], blocks = Some [], visuals = Some [],
      imageUrl = Some [], videoUrl = Some [], theme = None\<rparr>"

definition handleAIGenerate ::
  "string \<Rightarrow> string \<Rightarrow> string list response \<Rightarrow> 'v PageState \<Rightarrow> 'v PageState \<times> 'v event list" where
  \<comment> \<open>The error body is read without a \<open>catch\<close>: when it is not JSON, the parse error is
      what the \<open>catch\<close> block of the handler reports.\<close>
  "handleAIGenerate problem solution resp st0 =
     (let st = st0\<lparr>loading := True, error := None\<rparr>;
          evs = [Sent (GenerateSlides problem solution), Received]
      in case resp of
           Rejected m \<Rightarrow> (st\<lparr>error := Some m, loading := False\<rparr>, evs)
         | NotOk detail \<Rightarrow>
             (st\<lparr>error := Some (orElse detail ''Failed to generate slides''), loading := False\<rparr>, evs)
         | NotOkNoJson m \<Rightarrow> (st\<lparr>error := Some m, loading := False\<rparr>, evs)
         | Success generated \<Rightarrow>
             (st\<lparr>slides := map (\<lambda>(index, slideContent). generatedSlide index slideContent)
                               (List.enumerate 0 generated),
                 deckTitle := problem, deckDescription := solution,
                 slidesModified := True, showAIModal := False, loading := False\<rparr>, evs))"

section \<open>The manual block editor (ManualEditModal.tsx)\<close>

record LayoutItem =
  item_i :: string
  item_x :: nat
  item_y :: enat
  item_w :: nat
  item_h :: nat
  minW :: nat
  minH :: nat

record 'v EditorState =
  editor_blocks :: "'v SlideBlock list"
  layout :: "LayoutItem list"
  editor_theme :: string

definition getDefaultLayout :: "'v SlideBlock list \<Rightarrow> LayoutItem list" where
  "getDefaultLayout bs =
     map (\<lambda>(i, block).
            \<lparr>item_i = blockId block, item_x = (i mod 2) * 6, item_y = enat ((i div 2) * 4),
             item_w = 6, item_h = 4, minW = 3, minH = 2\<rparr>)
         (List.enumerate 0 bs)"

definition initialEditor :: "'v Slide \<Rightarrow> 'v EditorState" where
  \<comment> \<open>The initial values of the three \<open>useState\<close> hooks.\<close>
  "initialEditor slide =
     (let bs = (case blocks slide of None \<Rightarrow> [] | Some b \<Rightarrow> b)
      in \<lparr>editor_blocks = bs, layout = getDefaultLayout bs,
          editor_theme = orElse (theme slide) ''Classic''\<rparr>)"

definition appendedItem :: "string \<Rightarrow> LayoutItem" where
  "appendedItem new_id =
     \<lparr>item_i = new_id, item_x = 0, item_y = \<infinity>, item_w = 6, item_h = 4, minW = 3, minH = 2\<rparr>"

definition handleAddText :: "string \<Rightarrow> 'v EditorState \<Rightarrow> 'v EditorState" where
  \<comment> \<open>\<open>new_id\<close> is the random identifier the source draws.\<close>
  "handleAddText new_id st =
     (let newBlock = Text \<lparr>block_id = new_id, position = \<lparr>pos_x = 50, pos_y = 50\<rparr>,
                           block_size = \<lparr>width = 500, height = 80\<rparr>,
                           block_content = ''New text block'', isEditable = True\<rparr>
      in st\<lparr>editor_blocks := editor_blocks st @ [newBlock],
            layout := layout st @ [appendedItem new_id]\<rparr>)"

definition handleAddVisual :: "string \<Rightarrow> 'v \<Rightarrow> 'v EditorState \<Rightarrow> 'v EditorState" where
  \<comment> \<open>\<open>sample\<close> is the literal three-point data array of the source.\<close>
  "handleAddVisual new_id sample st =
     (let newBlock = Visual \<lparr>block_id = new_id, position = \<lparr>pos_x = 50, pos_y = 50\<rparr>,
                             block_size = \<lparr>width = 500, height = 300\<rparr>,
                             visual = \<lparr>visual_type = pie, visual_data = sample, config = None\<rparr>\<rparr>
      in st\<lparr>editor_blocks := editor_blocks st @ [newBlock],
            layout := layout st @ [appendedItem new_id]\<rparr>)"

definition handleRemoveBlock :: "string \<Rightarrow> 'v EditorState \<Rightarrow> 'v EditorState" where
  "handleRemoveBlock rid st =
     st\<lparr>editor_blocks := filter (\<lambda>b. blockId b \<noteq> rid) (editor_blocks st),
        layout := filter (\<lambda>l. item_i l \<noteq> rid) (layout st)\<rparr>"

section \<open>The specification's wording, for comparison\<close>

fun joined :: "string \<Rightarrow> string list \<Rightarrow> string" where
  \<comment> \<open>The elements in order, \<open>sep\<close> between neighbours.\<close>
  "joined sep [] = []"
| "joined sep [e] = e"
| "joined sep (e # e' # es) = e @ sep @ joined sep (e' # es)"

definition tails_sep :: "string \<Rightarrow> string list \<Rightarrow> string" where
  \<comment> \<open>Every element with \<open>sep\<close> in front of it.\<close>
  "tails_sep sep es = concat (map (\<lambda>e. sep @ e) es)"

definition entry :: "'v Slide \<Rightarrow> string" where
  "entry slide =
     title slide @ '':'' @ interpolate (content slide) @ '':'' @ interpolate (design slide)"



section \<open>Properties of states\<close>

definition layoutWithinBlocks :: "'v EditorState \<Rightarrow> bool" where
  \<comment> \<open>Every layout item is the item of a block of the editor.\<close>
  "layoutWithinBlocks st = (set (map item_i (layout st)) \<subseteq> set (map blockId (editor_blocks st)))"

definition mediaExclusive :: "'v Slide \<Rightarrow> bool" where
  \<comment> \<open>Not both media fields set; the page shows a field when it is truthy.\<close>
  "mediaExclusive slide = (\<not> (truthy (imageUrl slide) \<and> truthy (videoUrl slide)))"



section \<open>Sample values\<close>

definition initialState :: "unit PageState" where
  \<comment> \<open>The initial values of the \<open>useState\<close> hooks of the page.\<close>
  "initialState =
     \<lparr>deckTitle = [], deckDescription = [], loading = False, error = None, showAIModal = False,
      slides = [], selectedSlide = None, showEditModal = False, metrics = notAnalyzed,
      aiFeedback = [], showFeedbackModal = False, slidesModified = False,
      analysisLoading = False, lastFeedbackSlidesHash = [], aiSuggestions = []\<rparr>"

definition backendSlide :: "string \<Rightarrow> string \<Rightarrow> unit Slide" where
  \<comment> \<open>A slide as the backend stores it: a title and a content, nothing else.\<close>
  "backendSlide t c =
     \<lparr>title = t, content = Some c, design = None, blocks = None, visuals = None,
      imageUrl = None, videoUrl = None, theme = None\<rparr>"

definition plainSlide :: "string \<Rightarrow> string \<Rightarrow> string \<Rightarrow> unit Slide" where
  \<comment> \<open>A backend slide whose design notes were filled in on the page.\<close>
  "plainSlide t c d = (backendSlide t c)\<lparr>design := Some d\<rparr>"

definition textBlock :: "string \<Rightarrow> string \<Rightarrow> unit SlideBlock" where
  "textBlock b c =
     Text \<lparr>block_id = b, position = \<lparr>pos_x = 50, pos_y = 50\<rparr>,
           block_size = \<lparr>width = 500, height = 80\<rparr>, block_content = c, isEditable = True\<rparr>"

definition pieBlock :: "string \<Rightarrow> unit SlideBlock" where
  "pieBlock b =
     Visual \<lparr>block_id = b, position = \<lparr>pos_x = 50, pos_y = 50\<rparr>,
             block_size = \<lparr>width = 500, height = 300\<rparr>,
             visual = \<lparr>visual_type = pie, visual_data = (), config = None\<rparr>\<rparr>"

definition twoSlides :: "unit Slide list" where
  "twoSlides =
     [plainSlide ''The Problem'' ''Restaurants waste 30% of food'' ''blue background'',
      plainSlide ''Our Solution'' ''AI-powered inventory'' ''white text'']"

definition analysedState :: "unit PageState" where
  "analysedState =
     initialState\<lparr>slides := twoSlides,
       metrics := \<lparr>score = 82, narrative_flow = ''Strong'', visual_design = ''Polished'',
                   data_credibility = ''High''\<rparr>,
       aiFeedback := ''Tighten the market slide'',
       lastFeedbackSlidesHash := generateSlidesHash twoSlides\<rparr>"

definition editedState :: "unit PageState" where
  "editedState =
     analysedState\<lparr>slides :=
       twoSlides[0 := (twoSlides ! 0)\<lparr>content := Some ''Restaurants waste 40% of food''\<rparr>]\<rparr>"

definition goodAnalysis :: AnalysisData where
  "goodAnalysis =
     \<lparr>data_score = Some 90, data_narrative_flow = Some ''Very Strong'',
      data_visual_design = Some ''Decent'', data_data_credibility = Some ''High'',
      data_feedback = Some ''Lead with the customer pain''\<rparr>"





definition backendDeck :: "unit Slide list" where
  \<comment> \<open>A deck as \<open>/get-slides\<close> returns it: its slide has no design field.\<close>
  "backendDeck = [backendSlide ''The Problem'' ''Restaurants waste 30% of food'']"

definition tractionState :: "unit PageState" where
  \<comment> \<open>A one-slide deck, analysed as it stands, its slide open in the edit dialog.\<close>
  "tractionState =
     initialState\<lparr>slides := [plainSlide ''Traction'' ''Revenue'' ''2024: up 40%''],
                  selectedSlide := Some 0, showEditModal := True,
                  aiFeedback := ''Show the growth rate'',
                  lastFeedbackSlidesHash :=
                    generateSlidesHash [plainSlide ''Traction'' ''Revenue'' ''2024: up 40%'']\<rparr>"

definition priorSuggestions :: "Suggestion list" where
  "priorSuggestions =
     [\<lparr>suggestion_type = Content, suggestion_text = ''Add a customer quote''\<rparr>,
      \<lparr>suggestion_type = Design, suggestion_text = ''Use two columns''\<rparr>]"

definition refreshState :: "unit PageState" where
  \<comment> \<open>The two-slide deck with the first slide open and a suggestion list already shown.\<close>
  "refreshState =
     initialState\<lparr>slides := twoSlides, selectedSlide := Some 0, showEditModal := True,
                  aiSuggestions := priorSuggestions\<rparr>"

definition editedSlide :: "unit Slide" where
  "editedSlide =
     (plainSlide ''The Problem'' ''Restaurants waste 30% of food'' [])
       \<lparr>blocks := Some [textBlock ''text-k3x9f0a2b'' ''Restaurants waste 30% of food'',
                        pieBlock ''visual-0'']\<rparr>"




definition twoBlockState :: "unit PageState" where
  \<comment> \<open>One slide made of two text blocks and a chart, open in the edit dialog.\<close>
  "twoBlockState =
     initialState\<lparr>slides := [(plainSlide ''The Problem'' [] [])
                                \<lparr>blocks := Some [textBlock ''text-a'' ''A'',
                                                 textBlock ''text-b'' ''<p>B</p>'',
                                                 pieBlock ''visual-0'']\<rparr>],
                  selectedSlide := Some 0, showEditModal := True\<rparr>"

definition generatedState :: "unit PageState" where
  \<comment> \<open>A one-slide deck fresh from \<open>handleAIGenerate\<close>, its slide opened for editing.\<close>
  "generatedState =
     handleEditSlide 0
       (fst (handleAIGenerate ''Food waste'' ''Smart inventory''
               (Success [''Restaurants waste 30% of food'']) initialState))"

definition regeneratedState :: "unit PageState" where
  \<comment> \<open>\<open>tractionState\<close> after a click on Generate Content, answered with a content and
      a design.\<close>
  "regeneratedState =
     (case fst (generateContentOnClick (Success (Some ''Revenue:2024''))
                  (Success (Some '' up 40%'')) tractionState) of
        Stored st \<Rightarrow> st
      | StoredPastEnd st i c d \<Rightarrow> st)"

section \<open>Strings and arrays: facts\<close>

lemma join_from_eq: "join_from R sep es = R @ tails_sep sep es"
  by (induction es arbitrary: R) (simp_all add: tails_sep_def)

lemma sep_join: "es \<noteq> [] \<Longrightarrow> sep @ join es sep = tails_sep sep es"
  by (cases es) (simp_all add: join_def join_from_eq tails_sep_def)

lemma join_joined: "join es sep = joined sep es"
proof (induction sep es rule: joined.induct)
  case (3 sep e e' es)
  then show ?case by (simp add: join_def join_from_eq tails_sep_def)
qed (simp_all add: join_def)

lemma tails_sep_update:
  "i < length es \<Longrightarrow>
   tails_sep sep (es[i := e]) =
     tails_sep sep (take i es) @ sep @ e @ tails_sep sep (drop (Suc i) es)"
  by (simp add: tails_sep_def upd_conv_take_nth_drop)

lemma join_update_iff:
  assumes "i < length es"
  shows "join (es[i := e]) sep = join es sep \<longleftrightarrow> e = es ! i"
proof -
  have ne: "es \<noteq> []" "es[i := e] \<noteq> []" using assms by auto
  have a: "sep @ join (es[i := e]) sep =
        tails_sep sep (take i es) @ sep @ e @ tails_sep sep (drop (Suc i) es)"
    using assms by (simp only: sep_join[OF ne(2)] tails_sep_update)
  have b: "sep @ join es sep =
        tails_sep sep (take i es) @ sep @ es ! i @ tails_sep sep (drop (Suc i) es)"
    using assms tails_sep_update[of i es sep "es ! i"] by (simp add: sep_join[OF ne(1)])
  have "join (es[i := e]) sep = join es sep \<longleftrightarrow>
        sep @ join (es[i := e]) sep = sep @ join es sep" by simp
  also have "\<dots> \<longleftrightarrow> e = es ! i"
    unfolding a b by simp
  finally show ?thesis .
qed

section \<open>The fingerprint\<close>

lemma hash_entry: "generateSlidesHash deck = join (map entry deck) ''|''"
  unfolding generateSlidesHash_def entry_def[abs_def] by simp

lemma hash_update_iff:
  assumes "i < length deck"
  shows "generateSlidesHash (deck[i := s]) = generateSlidesHash deck
           \<longleftrightarrow> entry s = entry (deck ! i)"
  using assms join_update_iff[of i "map entry deck" "entry s" "''|''"]
  by (simp add: hash_entry map_update)

lemma hash_update_same:
  assumes "entry s = entry (deck ! i)"
  shows "generateSlidesHash (deck[i := s]) = generateSlidesHash deck"
proof (cases "i < length deck")
  case True
  with assms show ?thesis by (simp add: hash_update_iff)
next
  case False
  then have "deck[i := s] = deck" by (simp add: not_less list_update_beyond)
  then show ?thesis by simp
qed

lemma hash_title_changed:
  "i < length deck \<Longrightarrow> t \<noteq> title (deck ! i) \<Longrightarrow>
   generateSlidesHash (deck[i := (deck ! i)\<lparr>title := t\<rparr>]) \<noteq> generateSlidesHash deck"
  by (simp add: hash_update_iff entry_def)

lemma hash_content_iff:
  "i < length deck \<Longrightarrow>
   generateSlidesHash (deck[i := (deck ! i)\<lparr>content := c\<rparr>]) = generateSlidesHash deck
     \<longleftrightarrow> interpolate c = interpolate (content (deck ! i))"
  by (simp add: hash_update_iff entry_def)

lemma hash_design_iff:
  "i < length deck \<Longrightarrow>
   generateSlidesHash (deck[i := (deck ! i)\<lparr>design := d\<rparr>]) = generateSlidesHash deck
     \<longleftrightarrow> interpolate d = interpolate (design (deck ! i))"
  by (simp add: hash_update_iff entry_def)

lemma split_at_first:
  "x \<notin> set a \<Longrightarrow> x \<notin> set a' \<Longrightarrow> a @ x # b = a' @ x # b' \<Longrightarrow> a = a' \<and> b = b'"
proof (induction a arbitrary: a')
  case Nil
  then show ?case by (cases a') auto
next
  case (Cons h t)
  then show ?case by (cases a') auto
qed

lemma hash_content_design_iff:
  assumes "i < length deck"
    and "CHR '':'' \<notin> set (interpolate c)"
    and "CHR '':'' \<notin> set (interpolate (content (deck ! i)))"
  shows "generateSlidesHash (deck[i := (deck ! i)\<lparr>content := c, design := d\<rparr>])
           = generateSlidesHash deck
         \<longleftrightarrow> interpolate c = interpolate (content (deck ! i))
             \<and> interpolate d = interpolate (design (deck ! i))"
proof -
  have "interpolate c @ CHR '':'' # interpolate d
          = interpolate (content (deck ! i)) @ CHR '':'' # interpolate (design (deck ! i))
        \<longleftrightarrow> interpolate c = interpolate (content (deck ! i))
             \<and> interpolate d = interpolate (design (deck ! i))"
    using split_at_first[OF assms(2,3)] by auto
  with assms(1) show ?thesis
    by (simp add: hash_update_iff entry_def)
qed

lemma hash_joined:
  "generateSlidesHash deck =
     joined ''|'' (map (\<lambda>slide. title slide @ '':'' @ interpolate (content slide) @ '':''
                               @ interpolate (design slide)) deck)"
  by (simp add: generateSlidesHash_def join_joined)

lemma hash_blocks_visuals:
  "generateSlidesHash (deck[i := (deck ! i)\<lparr>blocks := bs, visuals := vs\<rparr>])
     = generateSlidesHash deck"
  by (rule hash_update_same) (simp add: entry_def)

text \<open>
  Claim C3 says that changing the title, the content or the design of one slide always
  changes the fingerprint. A slide fetched from the backend has no design field, and the
  template literal of \<open>generateSlidesHash\<close> prints an absent field as the word
  \<open>undefined\<close>: giving that slide the design \<open>undefined\<close> changes its design and leaves
  the fingerprint as it was.
\<close>

theorem generateSlidesHash_undefined_design:
  "(0::nat) < length backendDeck
   \<and> design (backendDeck ! 0) = None
   \<and> Some ''undefined'' \<noteq> design (backendDeck ! 0)
   \<and> generateSlidesHash (backendDeck[0 := (backendDeck ! 0)\<lparr>design := Some ''undefined''\<rparr>])
       = generateSlidesHash backendDeck
   \<and> generateSlidesHash backendDeck = ''The Problem:Restaurants waste 30% of food:undefined''"
  by (simp add: backendDeck_def backendSlide_def generateSlidesHash_def join_def interpolate_def)

text \<open>
  Claim C3, amended. For every deck, \<open>generateSlidesHash\<close> is the string made of
  \<open>title + ":" + content + ":" + design\<close> for each slide in order, an absent content or
  design printed as \<open>undefined\<close>, with \<open>"|"\<close> between neighbours. It is a function of
  the deck alone, so two calls on the same deck agree. With everything else fixed,
  replacing the title of one slide by a different string gives a different fingerprint,
  and replacing its content or its design gives a different fingerprint exactly when the
  new value prints differently from the old one (so always, except between an absent
  field and the string \<open>undefined\<close>). Replacing the blocks (their layout included) and
  the visuals of a slide gives the same fingerprint.
\<close>

theorem generateSlidesHash_printed_fields:
  "generateSlidesHash deck =
     joined ''|'' (map (\<lambda>slide. title slide @ '':'' @ interpolate (content slide) @ '':''
                               @ interpolate (design slide)) deck)
   \<and> (\<forall>i t. i < length deck \<longrightarrow> t \<noteq> title (deck ! i) \<longrightarrow>
          generateSlidesHash (deck[i := (deck ! i)\<lparr>title := t\<rparr>]) \<noteq> generateSlidesHash deck)
   \<and> (\<forall>i c. i < length deck \<longrightarrow>
          (generateSlidesHash (deck[i := (deck ! i)\<lparr>content := c\<rparr>]) \<noteq> generateSlidesHash deck
             \<longleftrightarrow> interpolate c \<noteq> interpolate (content (deck ! i))))
   \<and> (\<forall>i d. i < length deck \<longrightarrow>
          (generateSlidesHash (deck[i := (deck ! i)\<lparr>design := d\<rparr>]) \<noteq> generateSlidesHash deck
             \<longleftrightarrow> interpolate d \<noteq> interpolate (design (deck ! i))))
   \<and> (\<forall>c c'. c \<noteq> c' \<longrightarrow> interpolate (Some c) \<noteq> interpolate (Some c'))
   \<and> (\<forall>i bs vs.
          generateSlidesHash (deck[i := (deck ! i)\<lparr>blocks := bs, visuals := vs\<rparr>])
            = generateSlidesHash deck)"
proof (intro conjI allI impI)
  show "generateSlidesHash deck =
     joined ''|'' (map (\<lambda>slide. title slide @ '':'' @ interpolate (content slide) @ '':''
                               @ interpolate (design slide)) deck)"
    by (rule hash_joined)
next
  fix i t assume "i < length deck" "t \<noteq> title (deck ! i)"
  then show "generateSlidesHash (deck[i := (deck ! i)\<lparr>title := t\<rparr>]) \<noteq> generateSlidesHash deck"
    by (rule hash_title_changed)
next
  fix i c assume "i < length deck"
  then show "generateSlidesHash (deck[i := (deck ! i)\<lparr>content := c\<rparr>]) \<noteq> generateSlidesHash deck
             \<longleftrightarrow> interpolate c \<noteq> interpolate (content (deck ! i))"
    by (simp add: hash_content_iff)
next
  fix i d assume "i < length deck"
  then show "generateSlidesHash (deck[i := (deck ! i)\<lparr>design := d\<rparr>]) \<noteq> generateSlidesHash deck
             \<longleftrightarrow> interpolate d \<noteq> interpolate (design (deck ! i))"
    by (simp add: hash_design_iff)
next
  fix c c' :: string assume "c \<noteq> c'"
  then show "interpolate (Some c) \<noteq> interpolate (Some c')"
    by (simp add: interpolate_def)
next
  fix i bs vs
  show "generateSlidesHash (deck[i := (deck ! i)\<lparr>blocks := bs, visuals := vs\<rparr>])
          = generateSlidesHash deck"
    by (rule hash_blocks_visuals)
qed

theorem generateSlidesHash_printed_fields_witness:
  "generateSlidesHash twoSlides =
     ''The Problem:Restaurants waste 30% of food:blue background|Our Solution:AI-powered inventory:white text''
   \<and> (1::nat) < length twoSlides
   \<and> ''Solution'' \<noteq> title (twoSlides ! 1)
   \<and> generateSlidesHash (twoSlides[1 := (twoSlides ! 1)\<lparr>title := ''Solution''\<rparr>])
        \<noteq> generateSlidesHash twoSlides
   \<and> content (twoSlides ! 1) = Some ''AI-powered inventory''
   \<and> ''AI'' \<noteq> ''AI-powered inventory''
   \<and> interpolate (Some ''AI'') \<noteq> interpolate (content (twoSlides ! 1))
   \<and> generateSlidesHash (twoSlides[1 := (twoSlides ! 1)\<lparr>content := Some ''AI''\<rparr>])
        \<noteq> generateSlidesHash twoSlides
   \<and> interpolate None \<noteq> interpolate (design (twoSlides ! 1))
   \<and> generateSlidesHash (twoSlides[1 := (twoSlides ! 1)\<lparr>design := None\<rparr>])
        \<noteq> generateSlidesHash twoSlides
   \<and> generateSlidesHash
        (twoSlides[1 := (twoSlides ! 1)\<lparr>blocks := Some [pieBlock ''visual-0''],
                                          visuals := Some []\<rparr>])
        = generateSlidesHash twoSlides"
proof -
  have len: "(1::nat) < length twoSlides"
    by (simp add: twoSlides_def)
  have t: "''Solution'' \<noteq> title (twoSlides ! 1)"
    and k: "content (twoSlides ! 1) = Some ''AI-powered inventory''"
    and n: "''AI'' \<noteq> ''AI-powered inventory''"
    and d: "interpolate None \<noteq> interpolate (design (twoSlides ! 1))"
    by (simp_all add: twoSlides_def plainSlide_def backendSlide_def interpolate_def)
  note T = generateSlidesHash_printed_fields[of twoSlides]
  have h: "generateSlidesHash twoSlides =
     ''The Problem:Restaurants waste 30% of food:blue background|Our Solution:AI-powered inventory:white text''"
    using T[THEN conjunct1]
    by (simp add: twoSlides_def plainSlide_def backendSlide_def interpolate_def)
  note T5 = T[THEN conjunct2, THEN conjunct2, THEN conjunct2, THEN conjunct2, THEN conjunct1,
              rule_format, OF n]
  from T5 k have c: "interpolate (Some ''AI'') \<noteq> interpolate (content (twoSlides ! 1))"
    by simp
  note T1 = T[THEN conjunct2, THEN conjunct1, rule_format, OF len t]
  note T2 = T[THEN conjunct2, THEN conjunct2, THEN conjunct1, rule_format, OF len, THEN iffD2, OF c]
  note T3 = T[THEN conjunct2, THEN conjunct2, THEN conjunct2, THEN conjunct1, rule_format,
              OF len, THEN iffD2, OF d]
  note T4 = T[THEN conjunct2, THEN conjunct2, THEN conjunct2, THEN conjunct2, THEN conjunct2,
              rule_format,
              where i = 1 and bs = "Some [pieBlock ''visual-0'']" and vs = "Some []"]
  from len t k n c d h T1 T2 T3 T4 show ?thesis
    by (intro conjI)
qed

section \<open>Analysis and feedback: facts\<close>

lemma updateAIAnalysis_events:
  "fst (snd (updateAIAnalysis sl gf resp st)) = [Sent (analysisRequest sl gf), Received]"
  by (simp add: updateAIAnalysis_def Let_def split: response.splits option.splits)


lemma updateAIAnalysis_slides:
  "slides (fst (updateAIAnalysis sl gf resp st)) = slides st"
  by (simp add: updateAIAnalysis_def Let_def split: response.splits option.splits)


lemma updateAIAnalysis_feedback:
  assumes "data_feedback d = Some f" "f \<noteq> []"
  shows "lastFeedbackSlidesHash (fst (updateAIAnalysis sl True (Success d) st)) = generateSlidesHash sl"
    and "aiFeedback (fst (updateAIAnalysis sl True (Success d) st)) = f"
    and "snd (snd (updateAIAnalysis sl True (Success d) st)) = Inr d"
  using assms by (simp_all add: updateAIAnalysis_def Let_def)



lemma handleShowAIFeedback_cached:
  assumes "\<not> hasSlidesChanged st" "aiFeedback st \<noteq> []"
  shows "handleShowAIFeedback resp st = (st\<lparr>showFeedbackModal := True\<rparr>, [])"
  using assms by (simp add: handleShowAIFeedback_def)

lemma handleShowAIFeedback_requests:
  assumes "hasSlidesChanged st \<or> aiFeedback st = []"
  shows "snd (handleShowAIFeedback resp st) = [Sent (analysisRequest (slides st) True), Received]"
proof -
  obtain st' evs r where u: "updateAIAnalysis (slides st) True resp st = (st', evs, r)"
    by (cases "updateAIAnalysis (slides st) True resp st") auto
  with updateAIAnalysis_events[of "slides st" True resp st]
  have "evs = [Sent (analysisRequest (slides st) True), Received]" by simp
  with assms u show ?thesis
    by (auto simp: handleShowAIFeedback_def split: sum.splits)
qed

lemma handleShowAIFeedback_calls_iff:
  "snd (handleShowAIFeedback resp st) = [] \<longleftrightarrow> \<not> hasSlidesChanged st \<and> aiFeedback st \<noteq> []"
proof (cases "\<not> hasSlidesChanged st \<and> aiFeedback st \<noteq> []")
  case True
  then show ?thesis by (simp add: handleShowAIFeedback_cached)
next
  case False
  then have "hasSlidesChanged st \<or> aiFeedback st = []" by blast
  from handleShowAIFeedback_requests[OF this] False show ?thesis by simp
qed

lemma handleShowAIFeedback_fresh:
  assumes "hasSlidesChanged st \<or> aiFeedback st = []"
    and "data_feedback d = Some f" "f \<noteq> []"
  shows "lastFeedbackSlidesHash (fst (handleShowAIFeedback (Success d) st)) = generateSlidesHash (slides st)"
    and "aiFeedback (fst (handleShowAIFeedback (Success d) st)) = f"
    and "slides (fst (handleShowAIFeedback (Success d) st)) = slides st"
    and "showFeedbackModal (fst (handleShowAIFeedback (Success d) st))"
proof -
  obtain st' evs r where u: "updateAIAnalysis (slides st) True (Success d) st = (st', evs, r)"
    by (cases "updateAIAnalysis (slides st) True (Success d) st") auto
  from updateAIAnalysis_feedback[OF assms(2,3), of "slides st" st] u
  have 1: "lastFeedbackSlidesHash st' = generateSlidesHash (slides st)"
    and 2: "aiFeedback st' = f" and 3: "r = Inr d" by simp_all
  from updateAIAnalysis_slides[of "slides st" True "Success d" st] u
  have 4: "slides st' = slides st" by simp
  have h: "handleShowAIFeedback (Success d) st =
             (st'\<lparr>slidesModified := False, showFeedbackModal := True\<rparr>, evs)"
    using assms(1) u 3 by (auto simp: handleShowAIFeedback_def)
  show "lastFeedbackSlidesHash (fst (handleShowAIFeedback (Success d) st)) = generateSlidesHash (slides st)"
    and "aiFeedback (fst (handleShowAIFeedback (Success d) st)) = f"
    and "slides (fst (handleShowAIFeedback (Success d) st)) = slides st"
    and "showFeedbackModal (fst (handleShowAIFeedback (Success d) st))"
    by (simp_all add: h 1 2 4)
qed

lemma hasSlidesChanged_iff:
  "hasSlidesChanged st \<longleftrightarrow> generateSlidesHash (slides st) \<noteq> lastFeedbackSlidesHash st"
  by (simp add: hasSlidesChanged_def)

lemma unchanged_then_content_edit:
  assumes "\<not> hasSlidesChanged st" "i < length (slides st)"
  shows "hasSlidesChanged (st\<lparr>slides := (slides st)[i := (slides st ! i)\<lparr>content := c\<rparr>]\<rparr>)
           \<longleftrightarrow> interpolate c \<noteq> interpolate (content (slides st ! i))"
  using assms hash_content_iff[of i "slides st" c] by (simp add: hasSlidesChanged_iff)

lemma unchanged_then_design_edit:
  assumes "\<not> hasSlidesChanged st" "i < length (slides st)"
  shows "hasSlidesChanged (st\<lparr>slides := (slides st)[i := (slides st ! i)\<lparr>design := d\<rparr>]\<rparr>)
           \<longleftrightarrow> interpolate d \<noteq> interpolate (design (slides st ! i))"
  using assms hash_design_iff[of i "slides st" d] by (simp add: hasSlidesChanged_iff)

lemma unchanged_then_both_edit:
  assumes "\<not> hasSlidesChanged st" "i < length (slides st)"
    and "CHR '':'' \<notin> set (interpolate c)"
    and "CHR '':'' \<notin> set (interpolate (content (slides st ! i)))"
  shows "hasSlidesChanged
           (st\<lparr>slides := (slides st)[i := (slides st ! i)\<lparr>content := c, design := d\<rparr>]\<rparr>)
           \<longleftrightarrow> interpolate c \<noteq> interpolate (content (slides st ! i))
               \<or> interpolate d \<noteq> interpolate (design (slides st ! i))"
  using assms(1) hash_content_design_iff[OF assms(2,3,4), of d]
  by (simp add: hasSlidesChanged_iff)

lemma generateContentOnClick_stored:
  assumes "selectedSlide st = Some sel" "sel < length (slides st)"
  shows "fst (generateContentOnClick (Success c) (Success d) st) =
           Stored (st\<lparr>loading := False, error := None, slidesModified := True,
                       slides := (slides st)[sel := (slides st ! sel)\<lparr>content := c, design := d\<rparr>]\<rparr>)"
  using assms by (simp add: generateContentOnClick_def Let_def)

text \<open>
  Claim C4 says that \<open>hasSlidesChanged\<close> is true after any content or design mutation.
  The Generate Content button replaces the content and the design of the selected slide
  in one update. On a slide analysed with content \<open>Revenue\<close> and design
  \<open>2024: up 40%\<close>, an answer with content \<open>Revenue:2024\<close> and design \<open> up 40%\<close>
  changes both fields and gives the same fingerprint: \<open>hasSlidesChanged\<close> stays false,
  and \<open>handleShowAIFeedback\<close> shows the feedback of the old slide without a request.
\<close>

theorem handleShowAIFeedback_stale_after_regeneration:
  "\<not> hasSlidesChanged tractionState
   \<and> content (slides tractionState ! 0) = Some ''Revenue''
   \<and> design (slides tractionState ! 0) = Some ''2024: up 40%''
   \<and> fst (generateContentOnClick (Success (Some ''Revenue:2024'')) (Success (Some '' up 40%''))
            tractionState) = Stored regeneratedState
   \<and> content (slides regeneratedState ! 0) = Some ''Revenue:2024''
   \<and> design (slides regeneratedState ! 0) = Some '' up 40%''
   \<and> generateSlidesHash (slides regeneratedState) = ''Traction:Revenue:2024: up 40%''
   \<and> lastFeedbackSlidesHash regeneratedState = ''Traction:Revenue:2024: up 40%''
   \<and> \<not> hasSlidesChanged regeneratedState
   \<and> snd (handleShowAIFeedback (Success goodAnalysis) regeneratedState) = []
   \<and> aiFeedback (fst (handleShowAIFeedback (Success goodAnalysis) regeneratedState))
        = ''Show the growth rate''"
proof -
  have t: "selectedSlide tractionState = Some 0" "0 < length (slides tractionState)"
    and s: "slides tractionState = [plainSlide ''Traction'' ''Revenue'' ''2024: up 40%'']"
    and l: "lastFeedbackSlidesHash tractionState = ''Traction:Revenue:2024: up 40%''"
    and f: "aiFeedback tractionState = ''Show the growth rate''"
    by (simp_all add: tractionState_def initialState_def generateSlidesHash_def join_def
                      plainSlide_def backendSlide_def interpolate_def)
  have r: "regeneratedState =
             tractionState\<lparr>loading := False, error := None, slidesModified := True,
               slides := (slides tractionState)
                 [0 := (slides tractionState ! 0)\<lparr>content := Some ''Revenue:2024'',
                                                  design := Some '' up 40%''\<rparr>]\<rparr>"
    by (simp add: regeneratedState_def generateContentOnClick_stored[OF t])
  have g: "fst (generateContentOnClick (Success (Some ''Revenue:2024'')) (Success (Some '' up 40%''))
            tractionState) = Stored regeneratedState"
    unfolding r by (rule generateContentOnClick_stored[OF t])
  have h: "generateSlidesHash (slides regeneratedState) = ''Traction:Revenue:2024: up 40%''"
    by (simp add: r s generateSlidesHash_def join_def plainSlide_def backendSlide_def
                  interpolate_def)
  have l': "lastFeedbackSlidesHash regeneratedState = ''Traction:Revenue:2024: up 40%''"
    and f': "aiFeedback regeneratedState = ''Show the growth rate''"
    by (simp_all add: r l f)
  have u: "\<not> hasSlidesChanged tractionState"
    by (simp add: hasSlidesChanged_iff l s generateSlidesHash_def join_def plainSlide_def
                  backendSlide_def interpolate_def)
  have u': "\<not> hasSlidesChanged regeneratedState"
    by (simp add: hasSlidesChanged_iff h l')
  have c: "handleShowAIFeedback (Success goodAnalysis) regeneratedState
             = (regeneratedState\<lparr>showFeedbackModal := True\<rparr>, [])"
    using u' f' by (simp add: handleShowAIFeedback_cached)
  have "content (slides tractionState ! 0) = Some ''Revenue''"
    and "design (slides tractionState ! 0) = Some ''2024: up 40%''"
    and "content (slides regeneratedState ! 0) = Some ''Revenue:2024''"
    and "design (slides regeneratedState ! 0) = Some '' up 40%''"
    by (simp_all add: r s plainSlide_def backendSlide_def)
  with u g h l' u' c f' show ?thesis by simp
qed

text \<open>
  Claim C4, amended. \<open>handleShowAIFeedback\<close> sends no request, and only opens the
  feedback dialog on the state as it is, exactly when the fingerprint of the current
  slides equals the recorded one and the feedback text is not empty. Otherwise it sends
  one analysis request, carrying the title and the content of every current slide and
  asking for feedback. When the answer is a success that carries a non-empty feedback,
  the recorded fingerprint becomes the fingerprint of the slides the request was made for
  (in \<open>updateAIAnalysis\<close>, whatever the state holds when the answer arrives), so
  \<open>hasSlidesChanged\<close> is false right after. It is true again after a mutation of one
  slide that replaces its content, or its design, by a value that prints differently in
  the fingerprint; and after a mutation that replaces both, when one of them prints
  differently and neither the old nor the new content contains a colon. Other mutations
  of content and design together can leave the fingerprint, and so the served feedback,
  as they were.
\<close>

theorem handleShowAIFeedback_fingerprint_cache:
  "(snd (handleShowAIFeedback resp st) = [] \<longleftrightarrow> \<not> hasSlidesChanged st \<and> aiFeedback st \<noteq> [])
   \<and> (\<not> hasSlidesChanged st \<and> aiFeedback st \<noteq> [] \<longrightarrow>
        fst (handleShowAIFeedback resp st) = st\<lparr>showFeedbackModal := True\<rparr>)
   \<and> (hasSlidesChanged st \<or> aiFeedback st = [] \<longrightarrow>
        snd (handleShowAIFeedback resp st) =
          [Sent (AnalyzePitchDeck (map (\<lambda>s. (title s, orElse (content s) [])) (slides st)) True),
           Received])
   \<and> (data_feedback d = Some f \<and> f \<noteq> [] \<longrightarrow>
        lastFeedbackSlidesHash (fst (updateAIAnalysis used True (Success d) st)) = generateSlidesHash used)
   \<and> ((hasSlidesChanged st \<or> aiFeedback st = []) \<and> data_feedback d = Some f \<and> f \<noteq> [] \<longrightarrow>
        (let st' = fst (handleShowAIFeedback (Success d) st) in
           lastFeedbackSlidesHash st' = generateSlidesHash (slides st)
           \<and> aiFeedback st' = f
           \<and> \<not> hasSlidesChanged st'
           \<and> (\<forall>i c. i < length (slides st') \<longrightarrow>
                 (hasSlidesChanged (st'\<lparr>slides := (slides st')[i := (slides st' ! i)\<lparr>content := c\<rparr>]\<rparr>)
                    \<longleftrightarrow> interpolate c \<noteq> interpolate (content (slides st' ! i))))
           \<and> (\<forall>i g. i < length (slides st') \<longrightarrow>
                 (hasSlidesChanged (st'\<lparr>slides := (slides st')[i := (slides st' ! i)\<lparr>design := g\<rparr>]\<rparr>)
                    \<longleftrightarrow> interpolate g \<noteq> interpolate (design (slides st' ! i))))
           \<and> (\<forall>i c g. i < length (slides st') \<and> CHR '':'' \<notin> set (interpolate c)
                    \<and> CHR '':'' \<notin> set (interpolate (content (slides st' ! i))) \<longrightarrow>
                 (hasSlidesChanged
                    (st'\<lparr>slides := (slides st')[i := (slides st' ! i)\<lparr>content := c, design := g\<rparr>]\<rparr>)
                    \<longleftrightarrow> interpolate c \<noteq> interpolate (content (slides st' ! i))
                        \<or> interpolate g \<noteq> interpolate (design (slides st' ! i))))))"
proof (intro conjI impI)
  show "snd (handleShowAIFeedback resp st) = [] \<longleftrightarrow> \<not> hasSlidesChanged st \<and> aiFeedback st \<noteq> []"
    by (rule handleShowAIFeedback_calls_iff)
next
  assume "\<not> hasSlidesChanged st \<and> aiFeedback st \<noteq> []"
  then show "fst (handleShowAIFeedback resp st) = st\<lparr>showFeedbackModal := True\<rparr>"
    by (simp add: handleShowAIFeedback_cached)
next
  assume "hasSlidesChanged st \<or> aiFeedback st = []"
  then show "snd (handleShowAIFeedback resp st) =
          [Sent (AnalyzePitchDeck (map (\<lambda>s. (title s, orElse (content s) [])) (slides st)) True),
           Received]"
    by (simp add: handleShowAIFeedback_requests analysisRequest_def)
next
  assume "data_feedback d = Some f \<and> f \<noteq> []"
  then show "lastFeedbackSlidesHash (fst (updateAIAnalysis used True (Success d) st)) = generateSlidesHash used"
    by (simp add: updateAIAnalysis_feedback(1))
next
  assume a: "(hasSlidesChanged st \<or> aiFeedback st = []) \<and> data_feedback d = Some f \<and> f \<noteq> []"
  define st' where "st' = fst (handleShowAIFeedback (Success d) st)"
  from a have 1: "lastFeedbackSlidesHash st' = generateSlidesHash (slides st)"
    and 2: "aiFeedback st' = f" and 3: "slides st' = slides st"
    unfolding st'_def by (simp_all add: handleShowAIFeedback_fresh)
  from 1 3 have 4: "\<not> hasSlidesChanged st'" by (simp add: hasSlidesChanged_iff)
  have 5: "\<forall>i c. i < length (slides st') \<longrightarrow>
                 (hasSlidesChanged (st'\<lparr>slides := (slides st')[i := (slides st' ! i)\<lparr>content := c\<rparr>]\<rparr>)
                    \<longleftrightarrow> interpolate c \<noteq> interpolate (content (slides st' ! i)))"
    using unchanged_then_content_edit[OF 4] by blast
  have 6: "\<forall>i g. i < length (slides st') \<longrightarrow>
                 (hasSlidesChanged (st'\<lparr>slides := (slides st')[i := (slides st' ! i)\<lparr>design := g\<rparr>]\<rparr>)
                    \<longleftrightarrow> interpolate g \<noteq> interpolate (design (slides st' ! i)))"
    using unchanged_then_design_edit[OF 4] by blast
  have 7: "\<forall>i c g. i < length (slides st') \<and> CHR '':'' \<notin> set (interpolate c)
                    \<and> CHR '':'' \<notin> set (interpolate (content (slides st' ! i))) \<longrightarrow>
                 (hasSlidesChanged
                    (st'\<lparr>slides := (slides st')[i := (slides st' ! i)\<lparr>content := c, design := g\<rparr>]\<rparr>)
                    \<longleftrightarrow> interpolate c \<noteq> interpolate (content (slides st' ! i))
                        \<or> interpolate g \<noteq> interpolate (design (slides st' ! i)))"
    using unchanged_then_both_edit[OF 4] by blast
  from 1 2 4 5 6 7 show "let st' = fst (handleShowAIFeedback (Success d) st) in
           lastFeedbackSlidesHash st' = generateSlidesHash (slides st)
           \<and> aiFeedback st' = f
           \<and> \<not> hasSlidesChanged st'
           \<and> (\<forall>i c. i < length (slides st') \<longrightarrow>
                 (hasSlidesChanged (st'\<lparr>slides := (slides st')[i := (slides st' ! i)\<lparr>content := c\<rparr>]\<rparr>)
                    \<longleftrightarrow> interpolate c \<noteq> interpolate (content (slides st' ! i))))
           \<and> (\<forall>i g. i < length (slides st') \<longrightarrow>
                 (hasSlidesChanged (st'\<lparr>slides := (slides st')[i := (slides st' ! i)\<lparr>design := g\<rparr>]\<rparr>)
                    \<longleftrightarrow> interpolate g \<noteq> interpolate (design (slides st' ! i))))
           \<and> (\<forall>i c g. i < length (slides st') \<and> CHR '':'' \<notin> set (interpolate c)
                    \<and> CHR '':'' \<notin> set (interpolate (content (slides st' ! i))) \<longrightarrow>
                 (hasSlidesChanged
                    (st'\<lparr>slides := (slides st')[i := (slides st' ! i)\<lparr>content := c, design := g\<rparr>]\<rparr>)
                    \<longleftrightarrow> interpolate c \<noteq> interpolate (content (slides st' ! i))
                        \<or> interpolate g \<noteq> interpolate (design (slides st' ! i))))"
    unfolding st'_def[symmetric] Let_def by (intro conjI)
qed

theorem handleShowAIFeedback_fingerprint_cache_witness:
  "\<not> hasSlidesChanged analysedState \<and> aiFeedback analysedState \<noteq> []
   \<and> snd (handleShowAIFeedback (Rejected ''offline'') analysedState) = []
   \<and> fst (handleShowAIFeedback (Rejected ''offline'') analysedState)
        = analysedState\<lparr>showFeedbackModal := True\<rparr>
   \<and> hasSlidesChanged editedState
   \<and> snd (handleShowAIFeedback (Success goodAnalysis) editedState)
        = [Sent (AnalyzePitchDeck [(''The Problem'', ''Restaurants waste 40% of food''),
                                   (''Our Solution'', ''AI-powered inventory'')] True),
           Received]
   \<and> data_feedback goodAnalysis = Some ''Lead with the customer pain''
   \<and> ''Lead with the customer pain'' \<noteq> []
   \<and> lastFeedbackSlidesHash (fst (updateAIAnalysis twoSlides True (Success goodAnalysis) editedState))
        = generateSlidesHash twoSlides
   \<and> lastFeedbackSlidesHash (fst (handleShowAIFeedback (Success goodAnalysis) editedState))
        = generateSlidesHash (slides editedState)
   \<and> aiFeedback (fst (handleShowAIFeedback (Success goodAnalysis) editedState))
        = ''Lead with the customer pain''
   \<and> \<not> hasSlidesChanged (fst (handleShowAIFeedback (Success goodAnalysis) editedState))
   \<and> (1::nat) < length (slides (fst (handleShowAIFeedback (Success goodAnalysis) editedState)))
   \<and> interpolate (Some ''Stock alerts'')
        \<noteq> interpolate (content (slides (fst (handleShowAIFeedback (Success goodAnalysis) editedState)) ! 1))
   \<and> interpolate (Some ''dark'')
        \<noteq> interpolate (design (slides (fst (handleShowAIFeedback (Success goodAnalysis) editedState)) ! 1))
   \<and> CHR '':'' \<notin> set (interpolate (Some ''Stock alerts''))
   \<and> CHR '':'' \<notin> set (interpolate
         (content (slides (fst (handleShowAIFeedback (Success goodAnalysis) editedState)) ! 1)))
   \<and> hasSlidesChanged
        ((fst (handleShowAIFeedback (Success goodAnalysis) editedState))
           \<lparr>slides := (slides (fst (handleShowAIFeedback (Success goodAnalysis) editedState)))
              [1 := (slides (fst (handleShowAIFeedback (Success goodAnalysis) editedState)) ! 1)
                      \<lparr>content := Some ''Stock alerts''\<rparr>]\<rparr>)
   \<and> hasSlidesChanged
        ((fst (handleShowAIFeedback (Success goodAnalysis) editedState))
           \<lparr>slides := (slides (fst (handleShowAIFeedback (Success goodAnalysis) editedState)))
              [1 := (slides (fst (handleShowAIFeedback (Success goodAnalysis) editedState)) ! 1)
                      \<lparr>design := Some ''dark''\<rparr>]\<rparr>)
   \<and> hasSlidesChanged
        ((fst (handleShowAIFeedback (Success goodAnalysis) editedState))
           \<lparr>slides := (slides (fst (handleShowAIFeedback (Success goodAnalysis) editedState)))
              [1 := (slides (fst (handleShowAIFeedback (Success goodAnalysis) editedState)) ! 1)
                      \<lparr>content := Some ''Stock alerts'', design := Some ''dark''\<rparr>]\<rparr>)"
proof -
  have u: "\<not> hasSlidesChanged analysedState" "aiFeedback analysedState \<noteq> []"
    by (simp_all add: hasSlidesChanged_def analysedState_def initialState_def)
  note A = handleShowAIFeedback_fingerprint_cache
             [where resp = "Rejected ''offline''" and st = analysedState]
  have a1: "snd (handleShowAIFeedback (Rejected ''offline'') analysedState) = []"
    using A[THEN conjunct1] u by simp
  have a2: "fst (handleShowAIFeedback (Rejected ''offline'') analysedState)
        = analysedState\<lparr>showFeedbackModal := True\<rparr>"
    using A[THEN conjunct2, THEN conjunct1] u by simp
  have e0: "slides editedState =
              twoSlides[0 := (twoSlides ! 0)\<lparr>content := Some ''Restaurants waste 40% of food''\<rparr>]"
    "lastFeedbackSlidesHash editedState = generateSlidesHash twoSlides"
    by (simp_all add: editedState_def analysedState_def initialState_def)
  have "generateSlidesHash
          (twoSlides[0 := (twoSlides ! 0)\<lparr>content := Some ''Restaurants waste 40% of food''\<rparr>])
        \<noteq> generateSlidesHash twoSlides"
  proof -
    have z: "0 < length twoSlides"
      and "interpolate (Some ''Restaurants waste 40% of food'')
             \<noteq> interpolate (content (twoSlides ! 0))"
      by (simp_all add: twoSlides_def plainSlide_def backendSlide_def interpolate_def)
    with hash_content_iff[OF z, of "Some ''Restaurants waste 40% of food''"]
    show ?thesis by blast
  qed
  then have e: "hasSlidesChanged editedState"
    unfolding hasSlidesChanged_iff e0 .
  have g: "data_feedback goodAnalysis = Some ''Lead with the customer pain''"
    "''Lead with the customer pain'' \<noteq> []"
    by (simp_all add: goodAnalysis_def)
  note B = handleShowAIFeedback_fingerprint_cache
             [where resp = "Success goodAnalysis" and st = editedState and d = goodAnalysis
                and f = "''Lead with the customer pain''" and used = twoSlides]
  have q: "map (\<lambda>s. (title s, orElse (content s) [])) (slides editedState) =
             [(''The Problem'', ''Restaurants waste 40% of food''),
              (''Our Solution'', ''AI-powered inventory'')]"
    unfolding e0 by (simp add: twoSlides_def plainSlide_def backendSlide_def orElse_def)
  have b1: "snd (handleShowAIFeedback (Success goodAnalysis) editedState)
        = [Sent (AnalyzePitchDeck [(''The Problem'', ''Restaurants waste 40% of food''),
                                   (''Our Solution'', ''AI-powered inventory'')] True),
           Received]"
    using B[THEN conjunct2, THEN conjunct2, THEN conjunct1] e unfolding q by simp
  have b2: "lastFeedbackSlidesHash (fst (updateAIAnalysis twoSlides True (Success goodAnalysis) editedState))
        = generateSlidesHash twoSlides"
    using B[THEN conjunct2, THEN conjunct2, THEN conjunct2, THEN conjunct1] g by simp
  define st' where "st' = fst (handleShowAIFeedback (Success goodAnalysis) editedState)"
  note B5 = B[THEN conjunct2, THEN conjunct2, THEN conjunct2, THEN conjunct2, rule_format,
              unfolded Let_def, folded st'_def]
  have h: "(hasSlidesChanged editedState \<or> aiFeedback editedState = [])
             \<and> data_feedback goodAnalysis = Some ''Lead with the customer pain''
             \<and> ''Lead with the customer pain'' \<noteq> []"
    using e g by simp
  note C = B5[OF h]
  have b3: "lastFeedbackSlidesHash st' = generateSlidesHash (slides editedState)"
    and b4: "aiFeedback st' = ''Lead with the customer pain''"
    and b5: "\<not> hasSlidesChanged st'"
    using C by simp_all
  have s': "slides st' = slides editedState"
    unfolding st'_def using e g by (simp add: handleShowAIFeedback_fresh(3))
  have l: "(1::nat) < length (slides st')"
    and c: "interpolate (Some ''Stock alerts'') \<noteq> interpolate (content (slides st' ! 1))"
    and d: "interpolate (Some ''dark'') \<noteq> interpolate (design (slides st' ! 1))"
    and n: "CHR '':'' \<notin> set (interpolate (Some ''Stock alerts''))"
    and n': "CHR '':'' \<notin> set (interpolate (content (slides st' ! 1)))"
    unfolding s' e0
    by (simp_all add: twoSlides_def plainSlide_def backendSlide_def interpolate_def)
  note C1 = C[THEN conjunct2, THEN conjunct2, THEN conjunct2, THEN conjunct1, rule_format,
              OF l, THEN iffD2, OF c]
  note C2 = C[THEN conjunct2, THEN conjunct2, THEN conjunct2, THEN conjunct2, THEN conjunct1,
              rule_format, OF l, THEN iffD2, OF d]
  have k: "(1::nat) < length (slides st') \<and> CHR '':'' \<notin> set (interpolate (Some ''Stock alerts''))
             \<and> CHR '':'' \<notin> set (interpolate (content (slides st' ! 1)))"
    using l n n' by simp
  note C3 = C[THEN conjunct2, THEN conjunct2, THEN conjunct2, THEN conjunct2, THEN conjunct2,
              rule_format, OF k, THEN iffD2, OF disjI1, OF c]
  from u a1 a2 e b1 g b2 b3 b4 b5 l c d n n' C1 C2 C3 show ?thesis
    unfolding st'_def by (intro conjI)
qed

section \<open>Suggestions: facts\<close>















section \<open>Refreshing the suggestions: facts\<close>

lemma fetchAISuggestion_events:
  "fst (fetchAISuggestion type slide resp) =
     [Sent (GenerateSuggestion (title slide) (content slide) (design slide) type), Received]"
  by (simp add: fetchAISuggestion_def)

lemma fetchAISuggestion_result:
  "snd (fetchAISuggestion type slide resp) =
     (case resp of
        Rejected m \<Rightarrow> Inl m
      | NotOk detail \<Rightarrow> Inl (orElse detail ''Failed to fetch suggestion'')
      | NotOkNoJson m \<Rightarrow> Inl ''Failed to fetch suggestion''
      | Success t \<Rightarrow> Inr \<lparr>suggestion_type = type, suggestion_text = t\<rparr>)"
  by (simp add: fetchAISuggestion_def)

lemma fetchAISuggestion_fails:
  "(\<forall>t. resp \<noteq> Success t) \<Longrightarrow> \<exists>m. snd (fetchAISuggestion type slide resp) = Inl m"
  by (cases resp) (simp_all add: fetchAISuggestion_def)

lemma fetchAISuggestions_design_fails:
  assumes "0 \<le> idx" "idx < int (length (slides st))" "\<forall>t. designResp \<noteq> Success t"
  shows "fst (fetchAISuggestions idx (Success c) designResp st) = st"
    and "\<exists>m. snd (snd (fetchAISuggestions idx (Success c) designResp st)) = Inl m"
  using assms
  by (cases designResp; simp add: fetchAISuggestions_def fetchAISuggestion_def Let_def)+

lemma fetchAISuggestions_both:
  assumes "0 \<le> idx" "idx < int (length (slides st))"
  shows "fetchAISuggestions idx (Success c) (Success d) st =
           (st\<lparr>aiSuggestions := [\<lparr>suggestion_type = Content, suggestion_text = c\<rparr>,
                                   \<lparr>suggestion_type = Design, suggestion_text = d\<rparr>]\<rparr>,
            [Sent (GenerateSuggestion (title (slides st ! nat idx)) (content (slides st ! nat idx))
                     (design (slides st ! nat idx)) Content), Received,
             Sent (GenerateSuggestion (title (slides st ! nat idx)) (content (slides st ! nat idx))
                     (design (slides st ! nat idx)) Design), Received],
            Inr ())"
  using assms by (simp add: fetchAISuggestions_def fetchAISuggestion_def Let_def)

lemma fetchAISuggestions_content_failed_state:
  "(\<forall>t. contentResp \<noteq> Success t) \<Longrightarrow> fst (fetchAISuggestions idx contentResp designResp st) = st"
  by (cases contentResp) (simp_all add: fetchAISuggestions_def fetchAISuggestion_def Let_def)

lemma fetchAISuggestions_design_failed_state:
  "(\<forall>t. designResp \<noteq> Success t) \<Longrightarrow> fst (fetchAISuggestions idx contentResp designResp st) = st"
  by (cases contentResp; cases designResp)
     (simp_all add: fetchAISuggestions_def fetchAISuggestion_def Let_def)

lemma fetchAISuggestions_replaced_only_after_both:
  assumes "aiSuggestions (fst (fetchAISuggestions idx contentResp designResp st)) \<noteq> aiSuggestions st"
  shows "\<exists>c d. contentResp = Success c \<and> designResp = Success d"
proof (rule ccontr)
  assume "\<not> (\<exists>c d. contentResp = Success c \<and> designResp = Success d)"
  then have "(\<forall>t. contentResp \<noteq> Success t) \<or> (\<forall>t. designResp \<noteq> Success t)" by blast
  then have "fst (fetchAISuggestions idx contentResp designResp st) = st"
    using fetchAISuggestions_content_failed_state fetchAISuggestions_design_failed_state by blast
  with assms show False by simp
qed

lemma fetchAISuggestions_other_fields:
  "fst (fetchAISuggestions idx contentResp designResp st)
     = st\<lparr>aiSuggestions := aiSuggestions (fst (fetchAISuggestions idx contentResp designResp st))\<rparr>"
  by (cases contentResp; cases designResp)
     (simp_all add: fetchAISuggestions_def fetchAISuggestion_def Let_def)

lemma peak_fetchAISuggestions:
  "peak 0 (fst (snd (fetchAISuggestions idx contentResp designResp st))) \<le> 1"
  by (cases contentResp; cases designResp)
     (simp_all add: fetchAISuggestions_def fetchAISuggestion_def Let_def)

lemma fetchAISuggestions_content_fails:
  assumes "0 \<le> idx" "idx < int (length (slides st))" "\<forall>t. contentResp \<noteq> Success t"
  shows "fst (snd (fetchAISuggestions idx contentResp designResp st)) =
           [Sent (GenerateSuggestion (title (slides st ! nat idx)) (content (slides st ! nat idx))
                     (design (slides st ! nat idx)) Content), Received]"
  using assms
  by (cases contentResp) (simp_all add: fetchAISuggestions_def fetchAISuggestion_def Let_def)

text \<open>
  Claim C6. In a refresh of the suggestions of a slide, when the Content call succeeds and
  the Design call fails, the page state is left as it was, the shown suggestion list
  included, and the failure is thrown to the caller. The suggestion list is replaced only
  when both calls succeeded, and then by the Content suggestion followed by the Design
  suggestion.
\<close>

theorem fetchAISuggestions_all_or_nothing:
  "(0 \<le> idx \<and> idx < int (length (slides st)) \<and> (\<forall>t. designResp \<noteq> Success t) \<longrightarrow>
      fst (fetchAISuggestions idx (Success c) designResp st) = st
      \<and> (\<exists>m. snd (snd (fetchAISuggestions idx (Success c) designResp st)) = Inl m))
   \<and> (aiSuggestions (fst (fetchAISuggestions idx contentResp designResp st)) \<noteq> aiSuggestions st \<longrightarrow>
        (\<exists>c' d'. contentResp = Success c' \<and> designResp = Success d'))
   \<and> (0 \<le> idx \<and> idx < int (length (slides st)) \<longrightarrow>
        aiSuggestions (fst (fetchAISuggestions idx (Success c) (Success d) st)) =
          [\<lparr>suggestion_type = Content, suggestion_text = c\<rparr>,
           \<lparr>suggestion_type = Design, suggestion_text = d\<rparr>])"
proof (intro conjI impI)
  assume a: "0 \<le> idx \<and> idx < int (length (slides st)) \<and> (\<forall>t. designResp \<noteq> Success t)"
  then show "fst (fetchAISuggestions idx (Success c) designResp st) = st"
    by (simp add: fetchAISuggestions_design_fails(1))
  from a show "\<exists>m. snd (snd (fetchAISuggestions idx (Success c) designResp st)) = Inl m"
    by (simp add: fetchAISuggestions_design_fails(2))
next
  assume "aiSuggestions (fst (fetchAISuggestions idx contentResp designResp st)) \<noteq> aiSuggestions st"
  then show "\<exists>c' d'. contentResp = Success c' \<and> designResp = Success d'"
    by (rule fetchAISuggestions_replaced_only_after_both)
next
  assume "0 \<le> idx \<and> idx < int (length (slides st))"
  then show "aiSuggestions (fst (fetchAISuggestions idx (Success c) (Success d) st)) =
          [\<lparr>suggestion_type = Content, suggestion_text = c\<rparr>,
           \<lparr>suggestion_type = Design, suggestion_text = d\<rparr>]"
    by (simp add: fetchAISuggestions_both)
qed

theorem fetchAISuggestions_all_or_nothing_witness:
  "(0::int) \<le> 0 \<and> (0::int) < int (length (slides refreshState))
   \<and> (\<forall>t. (NotOk (Some ''model overloaded'') :: string response) \<noteq> Success t)
   \<and> fst (fetchAISuggestions 0 (Success ''Quote a customer'') (NotOk (Some ''model overloaded'')) refreshState)
        = refreshState
   \<and> aiSuggestions (fst (fetchAISuggestions 0 (Success ''Quote a customer'')
                            (NotOk (Some ''model overloaded'')) refreshState)) = priorSuggestions
   \<and> snd (snd (fetchAISuggestions 0 (Success ''Quote a customer'')
                  (NotOk (Some ''model overloaded'')) refreshState)) = Inl ''model overloaded''
   \<and> aiSuggestions (fst (fetchAISuggestions 0 (Success ''Quote a customer'')
                            (Success ''Use a dark theme'') refreshState)) \<noteq> aiSuggestions refreshState
   \<and> aiSuggestions (fst (fetchAISuggestions 0 (Success ''Quote a customer'')
                            (Success ''Use a dark theme'') refreshState)) =
        [\<lparr>suggestion_type = Content, suggestion_text = ''Quote a customer''\<rparr>,
         \<lparr>suggestion_type = Design, suggestion_text = ''Use a dark theme''\<rparr>]"
proof -
  have r: "(0::int) \<le> 0 \<and> (0::int) < int (length (slides refreshState))"
    by (simp add: refreshState_def initialState_def twoSlides_def)
  have f: "\<forall>t. (NotOk (Some ''model overloaded'') :: string response) \<noteq> Success t" by simp
  have p: "aiSuggestions refreshState = priorSuggestions"
    by (simp add: refreshState_def initialState_def)
  note T = fetchAISuggestions_all_or_nothing
             [where idx = 0 and st = refreshState and c = "''Quote a customer''"
                and designResp = "NotOk (Some ''model overloaded'')"
                and d = "''Use a dark theme''"]
  have 1: "fst (fetchAISuggestions 0 (Success ''Quote a customer'') (NotOk (Some ''model overloaded'')) refreshState)
        = refreshState"
    using T[THEN conjunct1] r f by blast
  have 2: "snd (snd (fetchAISuggestions 0 (Success ''Quote a customer'')
                  (NotOk (Some ''model overloaded'')) refreshState)) = Inl ''model overloaded''"
    using r by (simp add: fetchAISuggestions_def fetchAISuggestion_def Let_def orElse_def)
  have 3: "aiSuggestions (fst (fetchAISuggestions 0 (Success ''Quote a customer'')
                            (Success ''Use a dark theme'') refreshState)) =
        [\<lparr>suggestion_type = Content, suggestion_text = ''Quote a customer''\<rparr>,
         \<lparr>suggestion_type = Design, suggestion_text = ''Use a dark theme''\<rparr>]"
    using T[THEN conjunct2, THEN conjunct2] r by blast
  have 4: "aiSuggestions (fst (fetchAISuggestions 0 (Success ''Quote a customer'')
                            (Success ''Use a dark theme'') refreshState)) \<noteq> aiSuggestions refreshState"
    unfolding 3 p by (simp add: priorSuggestions_def)
  from r f 1 2 3 4 p show ?thesis by simp
qed

text \<open>
  Claim C7 (two requests in flight at the same time, then the list
  \<open>[contentSuggestion, designSuggestion]\<close>). The source announces parallel calls in its
  comments but awaits the Content call before it starts the Design call. On the two-slide
  deck, with both calls succeeding, the Content request is answered before the Design
  request leaves and at most one request is pending at any time; with the Content call
  failing, the Design request is never sent. The order of the assembled list is as claimed.
\<close>

theorem fetchAISuggestions_one_at_a_time:
  "fst (snd (fetchAISuggestions 0 (Success ''Quote a customer'')
               (Success ''Use a dark theme'') refreshState)) =
     [Sent (GenerateSuggestion ''The Problem'' (Some ''Restaurants waste 30% of food'')
              (Some ''blue background'') Content), Received,
      Sent (GenerateSuggestion ''The Problem'' (Some ''Restaurants waste 30% of food'')
              (Some ''blue background'') Design), Received]
   \<and> peak 0 (fst (snd (fetchAISuggestions 0 (Success ''Quote a customer'')
                          (Success ''Use a dark theme'') refreshState))) = 1
   \<and> fst (snd (fetchAISuggestions 0 (Rejected ''offline'')
                  (Success ''Use a dark theme'') refreshState)) =
       [Sent (GenerateSuggestion ''The Problem'' (Some ''Restaurants waste 30% of food'')
                (Some ''blue background'') Content), Received]
   \<and> aiSuggestions (fst (fetchAISuggestions 0 (Success ''Quote a customer'')
                            (Success ''Use a dark theme'') refreshState)) =
       [\<lparr>suggestion_type = Content, suggestion_text = ''Quote a customer''\<rparr>,
        \<lparr>suggestion_type = Design, suggestion_text = ''Use a dark theme''\<rparr>]"
proof -
  have r: "(0::int) \<le> 0" "(0::int) < int (length (slides refreshState))"
    by (simp_all add: refreshState_def initialState_def twoSlides_def)
  have s: "slides refreshState ! nat 0
             = plainSlide ''The Problem'' ''Restaurants waste 30% of food'' ''blue background''"
    by (simp add: refreshState_def initialState_def twoSlides_def)
  have f: "\<forall>t. (Rejected ''offline'' :: string response) \<noteq> Success t" by simp
  show ?thesis
    unfolding fetchAISuggestions_both[OF r] fetchAISuggestions_content_fails[OF r f] s
    by (simp add: plainSlide_def backendSlide_def)
qed

section \<open>The manual block editor: facts\<close>

lemma getDefaultLayout_ids: "map item_i (getDefaultLayout bs) = map blockId bs"
proof -
  have "map item_i (getDefaultLayout bs) = map (\<lambda>p. blockId (snd p)) (List.enumerate 0 bs)"
    by (simp add: getDefaultLayout_def case_prod_unfold)
  also have "\<dots> = map blockId (map snd (List.enumerate 0 bs))"
    by (simp only: map_map comp_def)
  also have "\<dots> = map blockId bs"
    by (simp only: map_snd_enumerate)
  finally show ?thesis .
qed

lemma initialEditor_within: "layoutWithinBlocks (initialEditor slide)"
  by (simp add: layoutWithinBlocks_def initialEditor_def Let_def getDefaultLayout_ids)

lemma handleAddText_within:
  "layoutWithinBlocks st \<Longrightarrow> layoutWithinBlocks (handleAddText new_id st)"
  by (auto simp: layoutWithinBlocks_def handleAddText_def appendedItem_def Let_def)

lemma handleAddVisual_within:
  "layoutWithinBlocks st \<Longrightarrow> layoutWithinBlocks (handleAddVisual new_id sample st)"
  by (auto simp: layoutWithinBlocks_def handleAddVisual_def appendedItem_def Let_def)

lemma handleRemoveBlock_within:
  "layoutWithinBlocks st \<Longrightarrow> layoutWithinBlocks (handleRemoveBlock rid st)"
  by (auto simp: layoutWithinBlocks_def handleRemoveBlock_def)

lemma filter_absent: "v \<notin> set (map f xs) \<Longrightarrow> filter (\<lambda>x. f x \<noteq> v) xs = xs"
  by (induction xs) auto

lemma handleRemoveBlock_blocks_absent:
  "rid \<notin> set (map blockId (editor_blocks st)) \<Longrightarrow>
   editor_blocks (handleRemoveBlock rid st) = editor_blocks st"
  by (simp add: handleRemoveBlock_def filter_absent)

lemma handleRemoveBlock_no_such_id:
  assumes "rid \<notin> set (map blockId (editor_blocks st))" "layoutWithinBlocks st"
  shows "handleRemoveBlock rid st = st"
proof -
  from assms have "rid \<notin> set (map item_i (layout st))"
    unfolding layoutWithinBlocks_def by blast
  with assms(1) show ?thesis
    by (simp add: handleRemoveBlock_def filter_absent)
qed

lemma handleRemoveBlock_idem:
  "handleRemoveBlock rid (handleRemoveBlock rid st) = handleRemoveBlock rid st"
  by (simp add: handleRemoveBlock_def)

lemma handleRemoveBlock_removes:
  "rid \<notin> set (map blockId (editor_blocks (handleRemoveBlock rid st)))"
  by (auto simp: handleRemoveBlock_def)

text \<open>
  Claim C8. \<open>handleRemoveBlock\<close> is a total function of the editor state: it raises
  nothing. With an id that no block carries, it leaves the block list as it is, and (the
  layout holding items of blocks only, as it does from the opening of the editor on
  through every add and remove) the layout list and the whole editor state as well.
  Removing the same id twice gives the same state as removing it once.
\<close>

theorem handleRemoveBlock_absent:
  "(rid \<notin> set (map blockId (editor_blocks st)) \<longrightarrow>
      editor_blocks (handleRemoveBlock rid st) = editor_blocks st)
   \<and> (rid \<notin> set (map blockId (editor_blocks st)) \<and> layoutWithinBlocks st \<longrightarrow>
        layout (handleRemoveBlock rid st) = layout st \<and> handleRemoveBlock rid st = st)
   \<and> handleRemoveBlock rid (handleRemoveBlock rid st) = handleRemoveBlock rid st"
  by (simp add: handleRemoveBlock_blocks_absent handleRemoveBlock_no_such_id handleRemoveBlock_idem)

theorem handleRemoveBlock_absent_witness:
  "''text-zzzzzzzzz'' \<notin> set (map blockId (editor_blocks (initialEditor editedSlide)))
   \<and> layoutWithinBlocks (initialEditor editedSlide)
   \<and> map blockId (editor_blocks (initialEditor editedSlide)) = [''text-k3x9f0a2b'', ''visual-0'']
   \<and> map item_i (layout (initialEditor editedSlide)) = [''text-k3x9f0a2b'', ''visual-0'']
   \<and> editor_blocks (handleRemoveBlock ''text-zzzzzzzzz'' (initialEditor editedSlide))
        = editor_blocks (initialEditor editedSlide)
   \<and> layout (handleRemoveBlock ''text-zzzzzzzzz'' (initialEditor editedSlide))
        = layout (initialEditor editedSlide)
   \<and> handleRemoveBlock ''text-zzzzzzzzz'' (initialEditor editedSlide) = initialEditor editedSlide
   \<and> map blockId (editor_blocks (handleRemoveBlock ''visual-0'' (initialEditor editedSlide)))
        = [''text-k3x9f0a2b'']
   \<and> handleRemoveBlock ''visual-0'' (handleRemoveBlock ''visual-0'' (initialEditor editedSlide))
        = handleRemoveBlock ''visual-0'' (initialEditor editedSlide)"
proof -
  have b: "map blockId (editor_blocks (initialEditor editedSlide)) = [''text-k3x9f0a2b'', ''visual-0'']"
    by (simp add: initialEditor_def Let_def editedSlide_def plainSlide_def backendSlide_def textBlock_def pieBlock_def)
  have l: "map item_i (layout (initialEditor editedSlide)) = [''text-k3x9f0a2b'', ''visual-0'']"
    by (simp add: initialEditor_def Let_def getDefaultLayout_ids editedSlide_def plainSlide_def backendSlide_def
                  textBlock_def pieBlock_def)
  have n: "''text-zzzzzzzzz'' \<notin> set (map blockId (editor_blocks (initialEditor editedSlide)))"
    unfolding b by simp
  have w: "layoutWithinBlocks (initialEditor editedSlide)"
    unfolding layoutWithinBlocks_def b l by simp
  have r: "map blockId (editor_blocks (handleRemoveBlock ''visual-0'' (initialEditor editedSlide)))
        = [''text-k3x9f0a2b'']"
    by (simp add: handleRemoveBlock_def initialEditor_def Let_def editedSlide_def plainSlide_def backendSlide_def
                  textBlock_def pieBlock_def)
  note T = handleRemoveBlock_absent[where rid = "''text-zzzzzzzzz''" and st = "initialEditor editedSlide"]
  note U = handleRemoveBlock_absent[where rid = "''visual-0''" and st = "initialEditor editedSlide"]
  from T n w have 1: "editor_blocks (handleRemoveBlock ''text-zzzzzzzzz'' (initialEditor editedSlide))
        = editor_blocks (initialEditor editedSlide)"
    and 2: "layout (handleRemoveBlock ''text-zzzzzzzzz'' (initialEditor editedSlide))
        = layout (initialEditor editedSlide)"
    and 3: "handleRemoveBlock ''text-zzzzzzzzz'' (initialEditor editedSlide) = initialEditor editedSlide"
    by blast+
  from U have 4: "handleRemoveBlock ''visual-0'' (handleRemoveBlock ''visual-0'' (initialEditor editedSlide))
        = handleRemoveBlock ''visual-0'' (initialEditor editedSlide)"
    by blast
  from n w b l 1 2 3 r 4 show ?thesis by (intro conjI)
qed

section \<open>Media upload: facts\<close>




lemma generatedSlide_exclusive: "mediaExclusive (generatedSlide index slideContent)"
  by (simp add: mediaExclusive_def generatedSlide_def truthy_def)






section \<open>Saving a slide: facts\<close>

lemma materialize_eq:
  "materialize bs (c, vs) =
     (c @ concat (map (\<lambda>t. stripParagraph t @ newline) (textContents bs)), vs @ visualPayloads bs)"
  by (induction bs "(c, vs)" arbitrary: c vs rule: materialize.induct) simp_all

lemma saveChanges_with_blocks:
  assumes "selectedSlide st = Some sel" "sel < length (slides st)"
    and "blocks (slides st ! sel) = Some bs"
  shows "content (slides (fst (saveChanges resp st)) ! sel)
           = Some (trim (concat (map (\<lambda>t. stripParagraph t @ newline) (textContents bs))))"
    and "visuals (slides (fst (saveChanges resp st)) ! sel) = Some (visualPayloads bs)"
  using assms by (simp_all add: saveChanges_def Let_def materialize_eq)

lemma saveChanges_without_blocks:
  assumes "selectedSlide st = Some sel" "sel < length (slides st)"
    and "blocks (slides st ! sel) = None"
  shows "content (slides (fst (saveChanges resp st)) ! sel)
           = Some (orElse (content (slides st ! sel)) [])"
  using assms by (simp add: saveChanges_def Let_def)

lemma saveChanges_no_blocks_left:
  assumes "selectedSlide st = Some sel" "sel < length (slides st)"
    and "blocks (slides st ! sel) = Some []"
  shows "content (slides (fst (saveChanges resp st)) ! sel) = Some []"
    and "visuals (slides (fst (saveChanges resp st)) ! sel) = Some []"
  using assms by (simp_all add: saveChanges_def Let_def trim_def)

lemma handleEditBlock_content:
  assumes "handleEditBlock slideIndex blockIndex newContent st = Inr st'"
  shows "\<exists>bs. blocks (slides st' ! slideIndex) = Some bs
              \<and> content (slides st' ! slideIndex)
                    = Some (joined (newline @ newline) (textContents bs))"
  using assms
  by (auto simp: handleEditBlock_def Let_def join_joined split: if_splits option.splits)

text \<open>
  Claim C1 (after Save Changes the content of a slide with blocks is the blank-line join
  of its text blocks, paragraph wrapper stripped, and its visuals are the payloads of its
  visual blocks in order). On a slide with the text blocks \<open>A\<close> and \<open><p>B</p>\<close> and one
  chart, Save Changes strips the wrapper and collects the chart, but it joins the texts
  with a single newline and trims the result: the content becomes \<open>A\nB\<close>, whereas the
  blank-line join is \<open>A\n\nB\<close>, which is also what \<open>handleEditBlock\<close> stores for the
  same two texts.
\<close>

theorem saveChanges_single_newline:
  "blocks (slides twoBlockState ! 0) =
     Some [textBlock ''text-a'' ''A'', textBlock ''text-b'' ''<p>B</p>'', pieBlock ''visual-0'']
   \<and> content (slides (fst (saveChanges (Success ()) twoBlockState)) ! 0) = Some ''A\<newline>B''
   \<and> joined (newline @ newline) [''A'', stripParagraph ''<p>B</p>''] = ''A\<newline>\<newline>B''
   \<and> visuals (slides (fst (saveChanges (Success ()) twoBlockState)) ! 0) =
       Some [\<lparr>visual_type = pie, visual_data = (), config = None\<rparr>]
   \<and> (case handleEditBlock 0 1 ''B'' twoBlockState of
         Inl e \<Rightarrow> False
       | Inr st \<Rightarrow> content (slides st ! 0) = Some ''A\<newline>\<newline>B'')"
proof -
  have s: "selectedSlide twoBlockState = Some 0" "0 < length (slides twoBlockState)"
    and b: "blocks (slides twoBlockState ! 0) =
     Some [textBlock ''text-a'' ''A'', textBlock ''text-b'' ''<p>B</p>'', pieBlock ''visual-0'']"
    by (simp_all add: twoBlockState_def initialState_def plainSlide_def backendSlide_def)
  have p: "stripParagraph ''<p>B</p>'' = ''B''"
    by (simp add: stripParagraph_def startsWith_def endsWith_def slice_def)
  have q: "stripParagraph ''A'' = ''A''"
    by (simp add: stripParagraph_def startsWith_def)
  have t: "trim ''A\<newline>B\<newline>'' = ''A\<newline>B''"
    by (simp add: trim_def isWhiteSpace_def)
  have c: "content (slides (fst (saveChanges (Success ()) twoBlockState)) ! 0) = Some ''A\<newline>B''"
    by (simp add: saveChanges_with_blocks(1)[OF s b] textBlock_def pieBlock_def p q newline_def t)
  have v: "visuals (slides (fst (saveChanges (Success ()) twoBlockState)) ! 0) =
       Some [\<lparr>visual_type = pie, visual_data = (), config = None\<rparr>]"
    by (simp add: saveChanges_with_blocks(2)[OF s b] textBlock_def pieBlock_def)
  have j: "joined (newline @ newline) [''A'', stripParagraph ''<p>B</p>''] = ''A\<newline>\<newline>B''"
    by (simp add: p newline_def)
  have h: "(case handleEditBlock 0 1 ''B'' twoBlockState of
         Inl e \<Rightarrow> False
       | Inr st \<Rightarrow> content (slides st ! 0) = Some ''A\<newline>\<newline>B'')"
    by (simp add: handleEditBlock_def Let_def twoBlockState_def initialState_def plainSlide_def backendSlide_def
                  textBlock_def pieBlock_def join_def newline_def)
  from b c j v h show ?thesis by (intro conjI)
qed

text \<open>
  Claim C2 (Save Changes leaves the content and the visuals of a slide with an empty
  blocks array as they are). A slide fresh from \<open>handleAIGenerate\<close> has
  \<open>blocks = []\<close> and a non-empty content; the test \<open>blocks && Array.isArray(blocks)\<close>
  holds for the empty array, so Save Changes rebuilds the content from no block at all
  and stores the empty string. Only a slide without a \<open>blocks\<close> field, as the backend
  returns it, keeps its content.
\<close>

theorem saveChanges_empty_blocks_erases:
  "blocks (slides generatedState ! 0) = Some []
   \<and> content (slides generatedState ! 0) = Some ''Restaurants waste 30% of food''
   \<and> content (slides (fst (saveChanges (Success ()) generatedState)) ! 0) = Some []
   \<and> blocks (slides refreshState ! 0) = None
   \<and> content (slides refreshState ! 0) = Some ''Restaurants waste 30% of food''
   \<and> content (slides (fst (saveChanges (Success ()) refreshState)) ! 0)
        = Some ''Restaurants waste 30% of food''"
proof -
  have g: "slides generatedState = [generatedSlide 0 ''Restaurants waste 30% of food'']"
    "selectedSlide generatedState = Some 0"
    by (simp_all add: generatedState_def handleEditSlide_def handleAIGenerate_def Let_def
                      initialState_def)
  have b: "blocks (slides generatedState ! 0) = Some []"
    and c: "content (slides generatedState ! 0) = Some ''Restaurants waste 30% of food''"
    and l: "0 < length (slides generatedState)"
    unfolding g by (simp_all add: generatedSlide_def)
  have r: "selectedSlide refreshState = Some 0" "0 < length (slides refreshState)"
    and rb: "blocks (slides refreshState ! 0) = None"
    and rc: "content (slides refreshState ! 0) = Some ''Restaurants waste 30% of food''"
    by (simp_all add: refreshState_def initialState_def twoSlides_def plainSlide_def backendSlide_def)
  from saveChanges_no_blocks_left(1)[OF g(2) l b]
  have e: "content (slides (fst (saveChanges (Success ()) generatedState)) ! 0) = Some []" .
  from saveChanges_without_blocks[OF r rb] rc
  have k: "content (slides (fst (saveChanges (Success ()) refreshState)) ! 0)
        = Some ''Restaurants waste 30% of food''" by (simp add: orElse_def)
  from b c e rb rc k show ?thesis by (intro conjI)
qed

end
